theory Spec2Isabelle
  imports Complex_Main "HOL-Library.Log_Nat"
begin

section \<open>Generalized pose estimation (colmap/estimators/generalized_pose.cc)\<close>

text \<open>
  A shallow embedding of the helpers and the three entry points of
  \<^verbatim>\<open>generalized_pose.cc\<close>. A C++ \<^verbatim>\<open>double\<close> is modelled by the real number it
  denotes. Eigen's vector and quaternion operations are written in exact arithmetic; the
  scalar accumulation of \<^verbatim>\<open>ComputeMaxErrorInCamera\<close> is written with the binary64
  rounding of every operation, since a statement about exact equality depends on it.
  A \<^verbatim>\<open>THROW_CHECK\<close> that fails is the error \<open>PreconditionViolation\<close>; reading through
  an end iterator or past the end of a vector is undefined behaviour in C++ and is the
  error \<open>UndefinedBehavior\<close>.
\<close>

subsection \<open>Data model\<close>

text \<open>
  Modelled from the spec: the declarations of \<^verbatim>\<open>Rigid3d\<close>, \<^verbatim>\<open>Camera\<close>,
  \<^verbatim>\<open>RANSACOptions\<close>, the supports and the report of a consensus run, the observations
  and \<^verbatim>\<open>AbsolutePoseRefinementOptions\<close> are in headers outside this source file. The
  records below have the members that \<^verbatim>\<open>generalized_pose.cc\<close> reads and writes, which
  are the ones the data model of the spec names.
\<close>

type_synonym double = real

record Vector2d =
  px :: double
  py :: double

record Vector3d =
  vx :: double
  vy :: double
  vz :: double

record Quaterniond =
  qw :: double
  qx :: double
  qy :: double
  qz :: double

record Rigid3d =
  rotation :: Quaterniond
  translation :: Vector3d

text \<open>
  Of a \<^verbatim>\<open>Camera\<close> this file reads the model id and the parameter vector; everything else
  goes through the camera's methods, which are collaborators (see below).
\<close>

record Camera =
  model_id :: nat
  params :: "double list"

text \<open>A double that may be a NaN: \<open>None\<close> is the NaN.\<close>

type_synonym double_or_nan = "double option"

record RANSACOptions =
  max_error :: double_or_nan

record Support =
  num_inliers :: nat
  residual_sum :: double

record UniqueSupport = Support +
  num_unique_inliers :: nat

text \<open>The report of a consensus run over a support type \<open>'s\<close>.\<close>

record 's Report =
  success :: bool
  support :: 's
  report_inlier_mask :: "bool list"
  model :: Rigid3d

text \<open>
  One observation of a rig: a ray in the frame of a camera and that camera's extrinsic
  (\<^verbatim>\<open>GP3PEstimator::X_t\<close> and \<^verbatim>\<open>GRNPObservation\<close> have these two members).
\<close>

record GRNPObservation =
  ray_in_cam :: Vector3d
  cam_from_rig :: Rigid3d

datatype error = PreconditionViolation | UndefinedBehavior

subsection \<open>Eigen operations on 3-vectors\<close>

definition vminus :: "Vector3d \<Rightarrow> Vector3d \<Rightarrow> Vector3d" where
  "vminus a b = \<lparr>vx = vx a - vx b, vy = vy a - vy b, vz = vz a - vz b\<rparr>"

definition vneg :: "Vector3d \<Rightarrow> Vector3d" where
  "vneg a = \<lparr>vx = - vx a, vy = - vy a, vz = - vz a\<rparr>"

definition squaredNorm :: "Vector3d \<Rightarrow> double" where
  "squaredNorm a = vx a * vx a + vy a * vy a + vz a * vz a"

definition vplus :: "Vector3d \<Rightarrow> Vector3d \<Rightarrow> Vector3d" where
  "vplus a b = \<lparr>vx = vx a + vx b, vy = vy a + vy b, vz = vz a + vz b\<rparr>"

definition vscale :: "double \<Rightarrow> Vector3d \<Rightarrow> Vector3d" where
  "vscale c a = \<lparr>vx = c * vx a, vy = c * vy a, vz = c * vz a\<rparr>"

definition cross :: "Vector3d \<Rightarrow> Vector3d \<Rightarrow> Vector3d" where
  "cross a b = \<lparr>vx = vy a * vz b - vz a * vy b,
                 vy = vz a * vx b - vx a * vz b,
                 vz = vx a * vy b - vy a * vx b\<rparr>"

definition setZero :: Vector3d where
  "setZero = \<lparr>vx = 0, vy = 0, vz = 0\<rparr>"

definition homogeneous :: "Vector2d \<Rightarrow> Vector3d" where
  "homogeneous p = \<lparr>vx = px p, vy = py p, vz = 1\<rparr>"

text \<open>\<^verbatim>\<open>normalized()\<close> divides by the norm when the squared norm is positive.\<close>

definition normalized :: "Vector3d \<Rightarrow> Vector3d" where
  "normalized a = (let n = squaredNorm a in if 0 < n then vscale (1 / sqrt n) a else a)"

subsection \<open>Eigen operations on quaternions\<close>

definition qvec :: "Quaterniond \<Rightarrow> Vector3d" where
  "qvec q = \<lparr>vx = qx q, vy = qy q, vz = qz q\<rparr>"

text \<open>
  \<^verbatim>\<open>q.inverse()\<close>: the conjugate divided by the squared norm, and the zero quaternion
  when the squared norm is not positive.
\<close>

definition qinverse :: "Quaterniond \<Rightarrow> Quaterniond" where
  "qinverse q =
     (let n2 = qw q * qw q + qx q * qx q + qy q * qy q + qz q * qz q
      in if 0 < n2 then \<lparr>qw = qw q / n2, qx = - qx q / n2, qy = - qy q / n2, qz = - qz q / n2\<rparr>
         else \<lparr>qw = 0, qx = 0, qy = 0, qz = 0\<rparr>)"

text \<open>\<^verbatim>\<open>q * v\<close>: the vector \<open>v\<close> rotated by \<open>q\<close>, as Eigen computes it.\<close>

definition qrotate :: "Quaterniond \<Rightarrow> Vector3d \<Rightarrow> Vector3d" where
  "qrotate q v =
     (let uv = vscale 2 (cross (qvec q) v)
      in vplus (vplus v (vscale (qw q) uv)) (cross (qvec q) uv))"

text \<open>
  Eigen's fuzzy comparison of two vectors, \<^verbatim>\<open>a.isApprox(b, prec)\<close>: the squared norm of
  the difference is at most \<open>prec\<^sup>2\<close> times the smaller of the two squared norms. The
  tolerance is relative to the size of the vectors.
\<close>

definition isApprox :: "Vector3d \<Rightarrow> Vector3d \<Rightarrow> double \<Rightarrow> bool" where
  "isApprox a b prec \<longleftrightarrow>
     squaredNorm (vminus a b) \<le> prec * prec * min (squaredNorm a) (squaredNorm b)"

subsection \<open>Collaborators\<close>

text \<open>
  What \<^verbatim>\<open>generalized_pose.cc\<close> calls and does not define is taken as given: the
  methods of \<^verbatim>\<open>Camera\<close>, the \<^verbatim>\<open>Check\<close> of the options, and the consensus engines.
  Every statement below holds for every choice of them.
  \<^item> \<open>RANSAC_GP3P options ids X Y\<close> is \<^verbatim>\<open>RANSAC<GP3PEstimator,
    UniqueInlierSupportMeasurer>(options, ..., UniqueInlierSupportMeasurer(ids)).Estimate(X, Y)\<close>.
  \<^item> \<open>LORANSAC_GR6P_GR8P options X Y\<close> is \<^verbatim>\<open>LORANSAC<GR6PEstimator,
    GR8PEstimator>(options).Estimate(X, Y)\<close>.
  \<^item> \<open>EstimateRelativePose\<close> writes through three pointers; it is given the values they hold
    before the call and returns its verdict with the values they hold after it.
\<close>

record collaborators =
  CamFromImg :: "Camera \<Rightarrow> Vector2d \<Rightarrow> Vector2d option"
  CamFromImgThreshold :: "Camera \<Rightarrow> double \<Rightarrow> double"
  RANSACOptions_Check :: "RANSACOptions \<Rightarrow> bool"
  RANSAC_GP3P ::
    "RANSACOptions \<Rightarrow> nat list \<Rightarrow> GRNPObservation list \<Rightarrow> Vector3d list \<Rightarrow> UniqueSupport Report"
  LORANSAC_GR6P_GR8P ::
    "RANSACOptions \<Rightarrow> GRNPObservation list \<Rightarrow> GRNPObservation list \<Rightarrow> Support Report"
  EstimateRelativePose ::
    "RANSACOptions \<Rightarrow> Vector3d list \<Rightarrow> Vector3d list \<Rightarrow> Rigid3d \<times> nat \<times> bool list
       \<Rightarrow> bool \<times> Rigid3d \<times> nat \<times> bool list"

subsection \<open>Checks on the cameras\<close>

text \<open>
  \<^verbatim>\<open>*std::min_element(first, last)\<close> and \<^verbatim>\<open>*std::max_element(first, last)\<close>: on an empty
  range the algorithm returns \<open>last\<close>, and reading through it is undefined behaviour.
\<close>

definition deref_min_element :: "nat list \<Rightarrow> error + nat" where
  "deref_min_element xs = (case xs of [] \<Rightarrow> Inl UndefinedBehavior | a # as \<Rightarrow> Inr (fold min as a))"

definition deref_max_element :: "nat list \<Rightarrow> error + nat" where
  "deref_max_element xs = (case xs of [] \<Rightarrow> Inl UndefinedBehavior | a # as \<Rightarrow> Inr (fold max as a))"

definition ThrowCheckCameras :: "nat list \<Rightarrow> Rigid3d list \<Rightarrow> Camera list \<Rightarrow> error + unit" where
  "ThrowCheckCameras camera_idxs cams_from_rig cameras =
     (if cameras = [] then Inl PreconditionViolation
      else if length cams_from_rig \<noteq> length cameras then Inl PreconditionViolation
      else case deref_min_element camera_idxs of
        Inl e \<Rightarrow> Inl e
      | Inr min_camera_idx \<Rightarrow>
          if \<not> 0 \<le> min_camera_idx then Inl PreconditionViolation
          else case deref_max_element camera_idxs of
            Inl e \<Rightarrow> Inl e
          | Inr max_camera_idx \<Rightarrow>
              if \<not> max_camera_idx < length cameras then Inl PreconditionViolation
              else Inr ())"

subsection \<open>Panoramic rigs\<close>

text \<open>The centre of a camera in the rig: \<^verbatim>\<open>rotation.inverse() * -translation\<close>.\<close>

definition origin_in_rig :: "Rigid3d \<Rightarrow> Vector3d" where
  "origin_in_rig cam = qrotate (qinverse (rotation cam)) (vneg (translation cam))"

text \<open>
  Reading a vector at a position: past the end it is undefined behaviour.
\<close>

definition at_index :: "'a list \<Rightarrow> nat \<Rightarrow> error + 'a" where
  "at_index xs i = (if i < length xs then Inr (xs ! i) else Inl UndefinedBehavior)"

fun panoramic_loop :: "Vector3d \<Rightarrow> nat list \<Rightarrow> Rigid3d list \<Rightarrow> error + bool" where
  "panoramic_loop first_origin_in_rig [] cams_from_rig = Inr True"
| "panoramic_loop first_origin_in_rig (it # rest) cams_from_rig =
     (case at_index cams_from_rig it of
        Inl e \<Rightarrow> Inl e
      | Inr cam \<Rightarrow>
          if \<not> isApprox first_origin_in_rig (origin_in_rig cam) (1 / 1000000) then Inr False
          else panoramic_loop first_origin_in_rig rest cams_from_rig)"

text \<open>
  A \<^verbatim>\<open>std::set<size_t>\<close> built from the indices holds each of them once, in increasing
  order. Reading \<^verbatim>\<open>*begin()\<close> of an empty set is undefined behaviour.
\<close>

definition IsPanoramicRig :: "nat list \<Rightarrow> Rigid3d list \<Rightarrow> error + bool" where
  "IsPanoramicRig camera_idxs cams_from_rig =
     (case sort (remdups camera_idxs) of
        [] \<Rightarrow> Inl UndefinedBehavior
      | first_camera_idx # others \<Rightarrow>
          (case at_index cams_from_rig first_camera_idx of
             Inl e \<Rightarrow> Inl e
           | Inr cam \<Rightarrow> panoramic_loop (origin_in_rig cam) others cams_from_rig))"

subsection \<open>Double arithmetic with rounding\<close>

text \<open>
  The sum and the quotient of two doubles are the exact results rounded to the nearest
  binary64 value, ties to the even significand: 53 significant bits, and the spacing
  \<open>2 ^ -1074\<close> of the subnormal numbers below \<open>2 ^ -1022\<close>. Overflow to an infinity is
  not modelled: the exponent is not bounded above.
\<close>

definition ilog2 :: "real \<Rightarrow> int" where
  "ilog2 a = (if 1 \<le> a then bitlen \<lfloor>a\<rfloor> - 1
              else let k = bitlen \<lfloor>1 / a\<rfloor> - 1
                   in if 2 ^ nat k = 1 / a then - k else - k - 1)"

definition pow2 :: "int \<Rightarrow> real" where
  "pow2 e = (if 0 \<le> e then 2 ^ nat e else 1 / 2 ^ nat (- e))"

definition round_half_even :: "real \<Rightarrow> int" where
  "round_half_even a =
     (let f = \<lfloor>a\<rfloor>; d = a - of_int f
      in if d < 1 / 2 then f else if 1 / 2 < d then f + 1 else if even f then f else f + 1)"

definition binary64_round :: "real \<Rightarrow> double" where
  "binary64_round a =
     (if a = 0 then 0
      else let e = max (ilog2 \<bar>a\<bar> - 52) (- 1074)
           in of_int (round_half_even (a / pow2 e)) * pow2 e)"

definition fl_add :: "double \<Rightarrow> double \<Rightarrow> double" where
  "fl_add a b = binary64_round (a + b)"

text \<open>A quotient of doubles; \<open>0.0 / 0\<close> is a NaN. The divisor here is a count, never negative.\<close>

definition fl_div :: "double \<Rightarrow> double \<Rightarrow> double_or_nan" where
  "fl_div a b = (if b = 0 then None else Some (binary64_round (a / b)))"

subsection \<open>The averaged threshold\<close>

text \<open>
  The loop of \<^verbatim>\<open>ComputeMaxErrorInCamera\<close>: one term for every entry of \<open>camera_idxs\<close>,
  added to the accumulator in the order of the entries.
\<close>

fun max_error_loop ::
  "collaborators \<Rightarrow> nat list \<Rightarrow> Camera list \<Rightarrow> double \<Rightarrow> double \<Rightarrow> error + double" where
  "max_error_loop ext [] cameras max_error_px max_error_cam = Inr max_error_cam"
| "max_error_loop ext (camera_idx # rest) cameras max_error_px max_error_cam =
     (case at_index cameras camera_idx of
        Inl e \<Rightarrow> Inl e
      | Inr camera \<Rightarrow>
          max_error_loop ext rest cameras max_error_px
            (fl_add max_error_cam (CamFromImgThreshold ext camera max_error_px)))"

definition ComputeMaxErrorInCamera ::
  "collaborators \<Rightarrow> nat list \<Rightarrow> Camera list \<Rightarrow> double_or_nan \<Rightarrow> error + double_or_nan" where
  "ComputeMaxErrorInCamera ext camera_idxs cameras max_error_px =
     (case max_error_px of
        None \<Rightarrow> Inl PreconditionViolation
      | Some t \<Rightarrow>
          if \<not> 0 < t then Inl PreconditionViolation
          else case max_error_loop ext camera_idxs cameras t 0 of
            Inl e \<Rightarrow> Inl e
          | Inr max_error_cam \<Rightarrow> Inr (fl_div max_error_cam (of_nat (length camera_idxs))))"

subsection \<open>Unique ids of the 3D points\<close>

definition LowerVector3d :: "Vector3d \<Rightarrow> Vector3d \<Rightarrow> bool" where
  "LowerVector3d v1 v2 =
     (if vx v1 < vx v2 then True
      else if vx v1 = vx v2 then
        (if vy v1 < vy v2 then True
         else if vy v1 = vy v2 then vz v1 < vz v2
         else False)
      else False)"

text \<open>
  \<^verbatim>\<open>std::sort\<close> with a comparator. Elements that the comparator does not separate may
  come out in any order in C++; the model takes the order of a stable insertion sort.
\<close>

fun insort_by :: "('a \<Rightarrow> 'a \<Rightarrow> bool) \<Rightarrow> 'a \<Rightarrow> 'a list \<Rightarrow> 'a list" where
  "insort_by lt a [] = [a]"
| "insort_by lt a (b # bs) = (if lt b a then b # insort_by lt a bs else a # b # bs)"

definition sort_by :: "('a \<Rightarrow> 'a \<Rightarrow> bool) \<Rightarrow> 'a list \<Rightarrow> 'a list" where
  "sort_by lt as = foldr (insort_by lt) as []"

text \<open>
  The loop of \<^verbatim>\<open>ComputeUniquePointIds\<close>. The two iterators are positions in the sorted
  index vector; the loop stops when \<open>current_it\<close> reaches its end.
\<close>

function unique_walk ::
  "Vector3d list \<Rightarrow> nat list \<Rightarrow> nat \<Rightarrow> nat \<Rightarrow> nat list \<Rightarrow> nat list" where
  "unique_walk points3D point3D_ids unique_it current_it unique_point3D_ids =
     (if current_it < length point3D_ids then
        let unique_it' =
              (if \<not> isApprox (points3D ! (point3D_ids ! unique_it))
                       (points3D ! (point3D_ids ! current_it)) (1 / 100000)
               then current_it else unique_it)
        in unique_walk points3D point3D_ids unique_it' (current_it + 1)
             (unique_point3D_ids[point3D_ids ! current_it := unique_it'])
      else unique_point3D_ids)"
  by pat_completeness auto
termination
  by (relation "measure (\<lambda>(p, ids, u, c, out). length ids - c)") auto

declare unique_walk.simps [simp del]

definition sorted_point3D_ids :: "Vector3d list \<Rightarrow> nat list" where
  "sorted_point3D_ids points3D =
     sort_by (\<lambda>i j. LowerVector3d (points3D ! i) (points3D ! j)) [0..<length points3D]"

definition ComputeUniquePointIds :: "Vector3d list \<Rightarrow> nat list" where
  "ComputeUniquePointIds points3D =
     unique_walk points3D (sorted_point3D_ids points3D) 0 0
       (replicate (length points3D) 0)"

subsection \<open>Absolute pose of a rig\<close>

text \<open>
  The values behind the output pointers. A function that returns without writing through
  a pointer leaves the value as it was before the call.
\<close>

record EstimateOutputs =
  num_inliers_out :: nat
  inlier_mask_out :: "bool list"

record AbsoluteOutputs = EstimateOutputs +
  rig_from_world_out :: Rigid3d

record RelativeOutputs = EstimateOutputs +
  rig2_from_rig1_out :: "Rigid3d option"
  pano2_from_pano1_out :: "Rigid3d option"

text \<open>
  The ray of a pixel in the frame of its camera, and the zero vector when the camera
  cannot map the pixel.
\<close>

definition ray_of_pixel :: "collaborators \<Rightarrow> Camera \<Rightarrow> Vector2d \<Rightarrow> Vector3d" where
  "ray_of_pixel ext camera point2D =
     (case CamFromImg ext camera point2D of
        Some cam_point \<Rightarrow> normalized (homogeneous cam_point)
      | None \<Rightarrow> setZero)"

text \<open>
  The observations of \<^verbatim>\<open>EstimateGeneralizedAbsolutePose\<close>. The checks before the loop
  make every index it reads valid: the three correspondence vectors have one length and
  every camera index is below the number of cameras and of extrinsics.
\<close>

definition absolute_rig_points2D ::
  "collaborators \<Rightarrow> Vector2d list \<Rightarrow> nat list \<Rightarrow> Rigid3d list \<Rightarrow> Camera list
     \<Rightarrow> GRNPObservation list" where
  "absolute_rig_points2D ext points2D camera_idxs cams_from_rig cameras =
     map (\<lambda>i. let camera_idx = camera_idxs ! i
              in \<lparr>ray_in_cam = ray_of_pixel ext (cameras ! camera_idx) (points2D ! i),
                  cam_from_rig = cams_from_rig ! camera_idx\<rparr>)
       [0..<length points2D]"

text \<open>The part of \<^verbatim>\<open>EstimateGeneralizedAbsolutePose\<close> after its checks.\<close>

definition absolute_consensus ::
  "collaborators \<Rightarrow> RANSACOptions \<Rightarrow> Vector2d list \<Rightarrow> Vector3d list \<Rightarrow> nat list
     \<Rightarrow> Rigid3d list \<Rightarrow> Camera list \<Rightarrow> AbsoluteOutputs \<Rightarrow> error + bool \<times> AbsoluteOutputs" where
  "absolute_consensus ext options points2D points3D camera_idxs cams_from_rig cameras outs =
     (let rig_points2D = absolute_rig_points2D ext points2D camera_idxs cams_from_rig cameras;
          unique_point3D_ids = ComputeUniquePointIds points3D
      in case ComputeMaxErrorInCamera ext camera_idxs cameras (max_error options) of
           Inl e \<Rightarrow> Inl e
         | Inr max_error_cam \<Rightarrow>
             let options_copy = options\<lparr>max_error := max_error_cam\<rparr>;
                 report = RANSAC_GP3P ext options_copy unique_point3D_ids rig_points2D points3D
             in if \<not> success report then Inr (False, outs)
                else Inr (True,
                       outs\<lparr>rig_from_world_out := model report,
                            num_inliers_out := num_unique_inliers (support report),
                            inlier_mask_out := report_inlier_mask report\<rparr>))"

definition EstimateGeneralizedAbsolutePose ::
  "collaborators \<Rightarrow> RANSACOptions \<Rightarrow> Vector2d list \<Rightarrow> Vector3d list \<Rightarrow> nat list
     \<Rightarrow> Rigid3d list \<Rightarrow> Camera list \<Rightarrow> AbsoluteOutputs \<Rightarrow> error + bool \<times> AbsoluteOutputs" where
  "EstimateGeneralizedAbsolutePose ext options points2D points3D camera_idxs cams_from_rig
       cameras outs =
     (if length points2D \<noteq> length points3D then Inl PreconditionViolation
      else if length points2D \<noteq> length camera_idxs then Inl PreconditionViolation
      else case ThrowCheckCameras camera_idxs cams_from_rig cameras of
        Inl e \<Rightarrow> Inl e
      | Inr _ \<Rightarrow>
          if \<not> RANSACOptions_Check ext options then Inl PreconditionViolation
          else if length points2D = 0 then Inr (False, outs)
          else absolute_consensus ext options points2D points3D camera_idxs cams_from_rig
                 cameras outs)"

subsection \<open>Relative pose of two rigs\<close>

text \<open>
  The loops of \<^verbatim>\<open>EstimateGeneralizedRelativePose\<close> run over the positions below
  \<open>num_points\<close>, the length of \<open>points2D1\<close>. Nothing relates the lengths of the index
  vectors to it, so reading \<^verbatim>\<open>camera_idxs1[i]\<close> can run past the end.
\<close>

fun collect :: "(nat \<Rightarrow> error + 'a) \<Rightarrow> nat list \<Rightarrow> error + 'a list" where
  "collect f [] = Inr []"
| "collect f (i # is) =
     (case f i of
        Inl e \<Rightarrow> Inl e
      | Inr a \<Rightarrow> (case collect f is of Inl e \<Rightarrow> Inl e | Inr as \<Rightarrow> Inr (a # as)))"

text \<open>A ray of the panoramic case, turned into the frame of the rig.\<close>

definition panoramic_ray ::
  "collaborators \<Rightarrow> Vector2d list \<Rightarrow> nat list \<Rightarrow> Rigid3d list \<Rightarrow> Camera list \<Rightarrow> nat
     \<Rightarrow> error + Vector3d" where
  "panoramic_ray ext points2D camera_idxs cams_from_rig cameras i =
     (case at_index camera_idxs i of
        Inl e \<Rightarrow> Inl e
      | Inr camera_idx \<Rightarrow>
          (case CamFromImg ext (cameras ! camera_idx) (points2D ! i) of
             Some cam_point \<Rightarrow>
               Inr (qrotate (qinverse (rotation (cams_from_rig ! camera_idx)))
                      (normalized (homogeneous cam_point)))
           | None \<Rightarrow> Inr setZero))"

text \<open>An observation of the general case: the ray stays in the frame of its camera.\<close>

definition generalized_observation ::
  "collaborators \<Rightarrow> Vector2d list \<Rightarrow> nat list \<Rightarrow> Rigid3d list \<Rightarrow> Camera list \<Rightarrow> nat
     \<Rightarrow> error + GRNPObservation" where
  "generalized_observation ext points2D camera_idxs cams_from_rig cameras i =
     (case at_index camera_idxs i of
        Inl e \<Rightarrow> Inl e
      | Inr camera_idx \<Rightarrow>
          Inr \<lparr>ray_in_cam = ray_of_pixel ext (cameras ! camera_idx) (points2D ! i),
               cam_from_rig = cams_from_rig ! camera_idx\<rparr>)"

text \<open>The test of the dispatch: \<^verbatim>\<open>IsPanoramicRig(1) && IsPanoramicRig(2)\<close>, left to right.\<close>

definition both_panoramic :: "nat list \<Rightarrow> nat list \<Rightarrow> Rigid3d list \<Rightarrow> error + bool" where
  "both_panoramic camera_idxs1 camera_idxs2 cams_from_rig =
     (case IsPanoramicRig camera_idxs1 cams_from_rig of
        Inl e \<Rightarrow> Inl e
      | Inr False \<Rightarrow> Inr False
      | Inr True \<Rightarrow> IsPanoramicRig camera_idxs2 cams_from_rig)"

text \<open>\<^verbatim>\<open>Rigid3d cam2_from_cam1;\<close> is the identity until it is written.\<close>

definition Rigid3d_identity :: Rigid3d where
  "Rigid3d_identity = \<lparr>rotation = \<lparr>qw = 1, qx = 0, qy = 0, qz = 0\<rparr>, translation = setZero\<rparr>"

text \<open>The branch for two panoramic views: two-view estimation on the rays.\<close>

definition relative_panoramic ::
  "collaborators \<Rightarrow> RANSACOptions \<Rightarrow> Vector2d list \<Rightarrow> Vector2d list \<Rightarrow> nat list \<Rightarrow> nat list
     \<Rightarrow> Rigid3d list \<Rightarrow> Camera list \<Rightarrow> RelativeOutputs \<Rightarrow> error + bool \<times> RelativeOutputs" where
  "relative_panoramic ext ransac_options points2D1 points2D2 camera_idxs1 camera_idxs2
       cams_from_rig cameras outs =
     (case collect (panoramic_ray ext points2D1 camera_idxs1 cams_from_rig cameras)
             [0..<length points2D1] of
        Inl e \<Rightarrow> Inl e
      | Inr cam_rays1 \<Rightarrow>
      case collect (panoramic_ray ext points2D2 camera_idxs2 cams_from_rig cameras)
             [0..<length points2D1] of
        Inl e \<Rightarrow> Inl e
      | Inr cam_rays2 \<Rightarrow>
          (case EstimateRelativePose ext ransac_options cam_rays1 cam_rays2
                  (Rigid3d_identity, num_inliers_out outs, inlier_mask_out outs) of
             (ok, cam2_from_cam1, n, inliers) \<Rightarrow>
               let outs' = outs\<lparr>num_inliers_out := n, inlier_mask_out := inliers\<rparr>
               in if ok then Inr (True, outs'\<lparr>pano2_from_pano1_out := Some cam2_from_cam1\<rparr>)
                  else Inr (False, outs')))"

text \<open>The general branch: the six/eight-point consensus on the observations.\<close>

definition relative_generalized ::
  "collaborators \<Rightarrow> RANSACOptions \<Rightarrow> Vector2d list \<Rightarrow> Vector2d list \<Rightarrow> nat list \<Rightarrow> nat list
     \<Rightarrow> Rigid3d list \<Rightarrow> Camera list \<Rightarrow> RelativeOutputs \<Rightarrow> error + bool \<times> RelativeOutputs" where
  "relative_generalized ext ransac_options points2D1 points2D2 camera_idxs1 camera_idxs2
       cams_from_rig cameras outs =
     (case collect (generalized_observation ext points2D1 camera_idxs1 cams_from_rig cameras)
             [0..<length points2D1] of
        Inl e \<Rightarrow> Inl e
      | Inr points1 \<Rightarrow>
      case collect (generalized_observation ext points2D2 camera_idxs2 cams_from_rig cameras)
             [0..<length points2D1] of
        Inl e \<Rightarrow> Inl e
      | Inr points2 \<Rightarrow>
          let report = LORANSAC_GR6P_GR8P ext ransac_options points1 points2
          in if \<not> success report then Inr (False, outs)
             else Inr (True,
                    outs\<lparr>rig2_from_rig1_out := Some (model report),
                         num_inliers_out := num_inliers (support report),
                         inlier_mask_out := report_inlier_mask report\<rparr>))"

definition EstimateGeneralizedRelativePose ::
  "collaborators \<Rightarrow> RANSACOptions \<Rightarrow> Vector2d list \<Rightarrow> Vector2d list \<Rightarrow> nat list \<Rightarrow> nat list
     \<Rightarrow> Rigid3d list \<Rightarrow> Camera list \<Rightarrow> RelativeOutputs \<Rightarrow> error + bool \<times> RelativeOutputs" where
  "EstimateGeneralizedRelativePose ext ransac_options points2D1 points2D2 camera_idxs1
       camera_idxs2 cams_from_rig cameras outs =
     (if length points2D1 \<noteq> length points2D2 then Inl PreconditionViolation
      else case ThrowCheckCameras camera_idxs1 cams_from_rig cameras of
        Inl e \<Rightarrow> Inl e
      | Inr _ \<Rightarrow>
      case ThrowCheckCameras camera_idxs2 cams_from_rig cameras of
        Inl e \<Rightarrow> Inl e
      | Inr _ \<Rightarrow>
      if \<not> RANSACOptions_Check ext ransac_options then Inl PreconditionViolation
      else if length points2D1 = 0 then Inr (False, outs)
      else case both_panoramic camera_idxs1 camera_idxs2 cams_from_rig of
        Inl e \<Rightarrow> Inl e
      | Inr True \<Rightarrow>
          relative_panoramic ext ransac_options points2D1 points2D2 camera_idxs1 camera_idxs2
            cams_from_rig cameras outs
      | Inr False \<Rightarrow>
          relative_generalized ext ransac_options points2D1 points2D2 camera_idxs1 camera_idxs2
            cams_from_rig cameras outs)"



text \<open>
  Three points on a line, each \<open>8e-6\<close> after the one before: neighbours are within the
  tolerance \<open>1e-5\<close> of each other, the first and the last are not.
\<close>

definition chain_p0 :: Vector3d where
  "chain_p0 = \<lparr>vx = 1, vy = 0, vz = 0\<rparr>"



subsection \<open>Refinement of an absolute pose: memory and solver\<close>

record AbsolutePoseRefinementOptions =
  gradient_tolerance :: double
  max_num_iterations :: int
  loss_function_scale :: double
  refine_focal_length :: bool
  refine_extra_params :: bool
  print_summary :: bool

text \<open>
  The solver is handed addresses of arrays of doubles, its parameter blocks. A block is
  named by the array it is the address of: the rotation and the translation of
  \<open>rig_from_world\<close>, of an entry of the caller's \<open>cams_from_rig\<close> or of the local copy of
  that vector, a point of the caller's \<open>points3D\<close> or of its local copy, and the parameters
  of a camera.
\<close>

datatype block =
    RigFromWorldRotation
  | RigFromWorldTranslation
  | CamFromRigRotation nat
  | CamFromRigTranslation nat
  | Point3D nat
  | CamFromRigRotationCopy nat
  | CamFromRigTranslationCopy nat
  | Point3DCopy nat
  | CameraParams nat

text \<open>
  The memory a call of \<^verbatim>\<open>RefineGeneralizedAbsolutePose\<close> can reach: what the caller owns
  (the pose, the cameras, the extrinsics, the points, the covariance if a location for it
  was passed) and the two local copies.
\<close>

record memory =
  m_rig_from_world :: Rigid3d
  m_cameras :: "Camera list"
  m_cams_from_rig :: "Rigid3d list"
  m_points3D :: "Vector3d list"
  m_rig_from_world_cov :: "double list option"
  m_cams_from_rig_copy :: "Rigid3d list"
  m_points3D_copy :: "Vector3d list"

text \<open>The doubles of a quaternion (Eigen stores \<open>x, y, z, w\<close>) and of a vector.\<close>

definition coeffs :: "Quaterniond \<Rightarrow> double list" where
  "coeffs q = [qx q, qy q, qz q, qw q]"

definition quaternion_of :: "double list \<Rightarrow> Quaterniond" where
  "quaternion_of cs = \<lparr>qw = cs ! 3, qx = cs ! 0, qy = cs ! 1, qz = cs ! 2\<rparr>"

definition data3 :: "Vector3d \<Rightarrow> double list" where
  "data3 a = [vx a, vy a, vz a]"

definition vector3_of :: "double list \<Rightarrow> Vector3d" where
  "vector3_of cs = \<lparr>vx = cs ! 0, vy = cs ! 1, vz = cs ! 2\<rparr>"

fun read_block :: "memory \<Rightarrow> block \<Rightarrow> double list" where
  "read_block m RigFromWorldRotation = coeffs (rotation (m_rig_from_world m))"
| "read_block m RigFromWorldTranslation = data3 (translation (m_rig_from_world m))"
| "read_block m (CamFromRigRotation i) = coeffs (rotation (m_cams_from_rig m ! i))"
| "read_block m (CamFromRigTranslation i) = data3 (translation (m_cams_from_rig m ! i))"
| "read_block m (Point3D i) = data3 (m_points3D m ! i)"
| "read_block m (CamFromRigRotationCopy i) = coeffs (rotation (m_cams_from_rig_copy m ! i))"
| "read_block m (CamFromRigTranslationCopy i) = data3 (translation (m_cams_from_rig_copy m ! i))"
| "read_block m (Point3DCopy i) = data3 (m_points3D_copy m ! i)"
| "read_block m (CameraParams i) = params (m_cameras m ! i)"

fun write_block :: "memory \<Rightarrow> block \<Rightarrow> double list \<Rightarrow> memory" where
  "write_block m RigFromWorldRotation cs =
     m\<lparr>m_rig_from_world := (m_rig_from_world m)\<lparr>rotation := quaternion_of cs\<rparr>\<rparr>"
| "write_block m RigFromWorldTranslation cs =
     m\<lparr>m_rig_from_world := (m_rig_from_world m)\<lparr>translation := vector3_of cs\<rparr>\<rparr>"
| "write_block m (CamFromRigRotation i) cs =
     m\<lparr>m_cams_from_rig :=
         (m_cams_from_rig m)[i := (m_cams_from_rig m ! i)\<lparr>rotation := quaternion_of cs\<rparr>]\<rparr>"
| "write_block m (CamFromRigTranslation i) cs =
     m\<lparr>m_cams_from_rig :=
         (m_cams_from_rig m)[i := (m_cams_from_rig m ! i)\<lparr>translation := vector3_of cs\<rparr>]\<rparr>"
| "write_block m (Point3D i) cs = m\<lparr>m_points3D := (m_points3D m)[i := vector3_of cs]\<rparr>"
| "write_block m (CamFromRigRotationCopy i) cs =
     m\<lparr>m_cams_from_rig_copy :=
         (m_cams_from_rig_copy m)[i := (m_cams_from_rig_copy m ! i)\<lparr>rotation := quaternion_of cs\<rparr>]\<rparr>"
| "write_block m (CamFromRigTranslationCopy i) cs =
     m\<lparr>m_cams_from_rig_copy :=
         (m_cams_from_rig_copy m)[i := (m_cams_from_rig_copy m ! i)\<lparr>translation := vector3_of cs\<rparr>]\<rparr>"
| "write_block m (Point3DCopy i) cs =
     m\<lparr>m_points3D_copy := (m_points3D_copy m)[i := vector3_of cs]\<rparr>"
| "write_block m (CameraParams i) cs =
     m\<lparr>m_cameras := (m_cameras m)[i := (m_cameras m ! i)\<lparr>params := cs\<rparr>]\<rparr>"

text \<open>
  A least-squares problem as this file builds it: the residual blocks with the parameter
  blocks each one reads, the blocks set constant, and the manifolds set on blocks. A
  subset manifold of a block names the coordinates of the block that are held constant.
\<close>

datatype manifold = QuaternionManifold | SubsetManifold nat "nat list"

datatype cost_function = RigReprojErrorCostFunction nat Vector2d

record ResidualBlock =
  cost :: cost_function
  loss_scale :: double
  parameter_blocks :: "block list"

record Problem =
  residual_blocks :: "ResidualBlock list"
  constant_blocks :: "block list"
  manifolds :: "(block \<times> manifold) list"

definition empty_Problem :: Problem where
  "empty_Problem = \<lparr>residual_blocks = [], constant_blocks = [], manifolds = []\<rparr>"

definition AddResidualBlock :: "ResidualBlock \<Rightarrow> Problem \<Rightarrow> Problem" where
  "AddResidualBlock r problem = problem\<lparr>residual_blocks := residual_blocks problem @ [r]\<rparr>"

definition SetParameterBlockConstant :: "block \<Rightarrow> Problem \<Rightarrow> Problem" where
  "SetParameterBlockConstant b problem = problem\<lparr>constant_blocks := b # constant_blocks problem\<rparr>"

definition SetManifold :: "block \<Rightarrow> manifold \<Rightarrow> Problem \<Rightarrow> Problem" where
  "SetManifold b mf problem = problem\<lparr>manifolds := (b, mf) # manifolds problem\<rparr>"

text \<open>
  Modelled from the spec: \<^verbatim>\<open>SetQuaternionManifold\<close> and \<^verbatim>\<open>SetSubsetManifold\<close> are
  declared in \<^verbatim>\<open>colmap/estimators/manifold.h\<close>, outside this source file. The first
  puts the unit-quaternion manifold on a block, the second a manifold that holds the given
  coordinates of a block of the given size constant.
\<close>

definition SetQuaternionManifold :: "block \<Rightarrow> Problem \<Rightarrow> Problem" where
  "SetQuaternionManifold b problem = SetManifold b QuaternionManifold problem"

definition SetSubsetManifold :: "nat \<Rightarrow> nat list \<Rightarrow> block \<Rightarrow> Problem \<Rightarrow> Problem" where
  "SetSubsetManifold n constant_params b problem =
     SetManifold b (SubsetManifold n constant_params) problem"

text \<open>Every residual block here is a reprojection error in the image, two residuals.\<close>

definition NumResiduals :: "Problem \<Rightarrow> nat" where
  "NumResiduals problem = 2 * length (residual_blocks problem)"

definition problem_blocks :: "Problem \<Rightarrow> block list" where
  "problem_blocks problem = remdups (concat (map parameter_blocks (residual_blocks problem)))"

record SolverOptions =
  solver_gradient_tolerance :: double
  solver_max_num_iterations :: int
  solver_num_threads :: nat

datatype TerminationType = CONVERGENCE | NO_CONVERGENCE | FAILURE | USER_SUCCESS | USER_FAILURE

text \<open>\<^verbatim>\<open>Summary::IsSolutionUsable()\<close> of the solver.\<close>

definition IsSolutionUsable :: "TerminationType \<Rightarrow> bool" where
  "IsSolutionUsable t \<longleftrightarrow> t = CONVERGENCE \<or> t = NO_CONVERGENCE \<or> t = USER_SUCCESS"

text \<open>
  The collaborators of the refinement: the \<^verbatim>\<open>Check\<close> of its options, the index groups of
  a camera model, and the solver. \<open>minimizer\<close> stands for the numerical work of
  \<^verbatim>\<open>ceres::Solve\<close>: from the options, the problem and the memory it proposes a value for
  every coordinate of every block and gives the termination type. \<open>Covariance_Compute\<close>
  and \<open>GetCovarianceMatrixInTangentSpace\<close> are the two steps of \<^verbatim>\<open>ceres::Covariance\<close>.
\<close>

record refinement_collaborators =
  AbsolutePoseRefinementOptions_Check :: "AbsolutePoseRefinementOptions \<Rightarrow> bool"
  PrincipalPointIdxs :: "Camera \<Rightarrow> nat list"
  FocalLengthIdxs :: "Camera \<Rightarrow> nat list"
  ExtraParamsIdxs :: "Camera \<Rightarrow> nat list"
  minimizer :: "SolverOptions \<Rightarrow> Problem \<Rightarrow> memory \<Rightarrow> (block \<Rightarrow> nat \<Rightarrow> double) \<times> TerminationType"
  Covariance_Compute :: "block list \<Rightarrow> Problem \<Rightarrow> memory \<Rightarrow> bool"
  GetCovarianceMatrixInTangentSpace :: "block list \<Rightarrow> Problem \<Rightarrow> memory \<Rightarrow> double list"

text \<open>
  What \<^verbatim>\<open>ceres::Solve\<close> may write, by the contract of the solver: the blocks of the residual
  blocks of the problem and nothing else; of these, not the blocks set constant; and of a
  block with a subset manifold, not the coordinates the manifold holds constant.
\<close>

definition held_constant :: "Problem \<Rightarrow> block \<Rightarrow> nat \<Rightarrow> bool" where
  "held_constant problem b j =
     (case map_of (manifolds problem) b of
        Some (SubsetManifold n constant_params) \<Rightarrow> j \<in> set constant_params
      | _ \<Rightarrow> False)"

definition solved_block ::
  "Problem \<Rightarrow> memory \<Rightarrow> (block \<Rightarrow> nat \<Rightarrow> double) \<Rightarrow> block \<Rightarrow> double list" where
  "solved_block problem m proposal b =
     (let current = read_block m b
      in if b \<in> set (constant_blocks problem) then current
         else map (\<lambda>j. if held_constant problem b j then current ! j else proposal b j)
                [0..<length current])"

definition ceres_Solve ::
  "refinement_collaborators \<Rightarrow> SolverOptions \<Rightarrow> Problem \<Rightarrow> memory \<Rightarrow> memory \<times> TerminationType" where
  "ceres_Solve ext solver_options problem m =
     (case minimizer ext solver_options problem m of
        (proposal, termination) \<Rightarrow>
          (fold (\<lambda>b m'. write_block m' b (solved_block problem m proposal b))
             (problem_blocks problem) m,
           termination))"

subsection \<open>Refinement of an absolute pose: the function\<close>

text \<open>
  One turn of the loop over the correspondences: an outlier is skipped; an inlier counts
  for its camera and adds a residual block on the copies of the extrinsic of its camera,
  the pose of the rig, the copy of its point and the parameters of its camera; the copy of
  the point is set constant.
\<close>

definition add_observation ::
  "AbsolutePoseRefinementOptions \<Rightarrow> bool list \<Rightarrow> Vector2d list \<Rightarrow> nat list \<Rightarrow> Camera list
     \<Rightarrow> nat \<Rightarrow> nat list \<times> Problem \<Rightarrow> nat list \<times> Problem" where
  "add_observation options inlier_mask points2D camera_idxs cameras i state =
     (case state of (camera_counts, problem) \<Rightarrow>
        if \<not> inlier_mask ! i then (camera_counts, problem)
        else
          let camera_idx = camera_idxs ! i
          in (camera_counts[camera_idx := camera_counts ! camera_idx + 1],
              SetParameterBlockConstant (Point3DCopy i)
                (AddResidualBlock
                   \<lparr>cost = RigReprojErrorCostFunction (model_id (cameras ! camera_idx)) (points2D ! i),
                    loss_scale = loss_function_scale options,
                    parameter_blocks =
                      [CamFromRigRotationCopy camera_idx, CamFromRigTranslationCopy camera_idx,
                       RigFromWorldRotation, RigFromWorldTranslation, Point3DCopy i,
                       CameraParams camera_idx]\<rparr>
                   problem)))"

definition add_observations ::
  "AbsolutePoseRefinementOptions \<Rightarrow> bool list \<Rightarrow> Vector2d list \<Rightarrow> nat list \<Rightarrow> Camera list
     \<Rightarrow> nat list \<times> Problem" where
  "add_observations options inlier_mask points2D camera_idxs cameras =
     fold (add_observation options inlier_mask points2D camera_idxs cameras)
       [0..<length points2D] (replicate (length cameras) 0, empty_Problem)"

text \<open>The coordinates of the parameters of a camera that are held constant.\<close>

definition constant_camera_params ::
  "refinement_collaborators \<Rightarrow> AbsolutePoseRefinementOptions \<Rightarrow> Camera \<Rightarrow> nat list" where
  "constant_camera_params ext options camera =
     PrincipalPointIdxs ext camera
     @ (if \<not> refine_focal_length options then FocalLengthIdxs ext camera else [])
     @ (if \<not> refine_extra_params options then ExtraParamsIdxs ext camera else [])"

text \<open>One turn of the loop over the cameras; a camera without inlier is skipped.\<close>

definition parameterize_camera ::
  "refinement_collaborators \<Rightarrow> AbsolutePoseRefinementOptions \<Rightarrow> nat list \<Rightarrow> Camera list
     \<Rightarrow> nat \<Rightarrow> Problem \<Rightarrow> Problem" where
  "parameterize_camera ext options camera_counts cameras i problem =
     (if camera_counts ! i = 0 then problem
      else
        let camera = cameras ! i;
            problem1 = SetParameterBlockConstant (CamFromRigRotationCopy i) problem;
            problem2 = SetParameterBlockConstant (CamFromRigTranslationCopy i) problem1
        in if \<not> refine_focal_length options \<and> \<not> refine_extra_params options
           then SetParameterBlockConstant (CameraParams i) problem2
           else
             let camera_params_const = constant_camera_params ext options camera
             in if length camera_params_const = length (params camera)
                then SetParameterBlockConstant (CameraParams i) problem2
                else SetSubsetManifold (length (params camera)) camera_params_const
                       (CameraParams i) problem2)"

text \<open>The problem at the call of the solver.\<close>

definition refinement_problem ::
  "refinement_collaborators \<Rightarrow> AbsolutePoseRefinementOptions \<Rightarrow> bool list \<Rightarrow> Vector2d list
     \<Rightarrow> nat list \<Rightarrow> Camera list \<Rightarrow> Problem" where
  "refinement_problem ext options inlier_mask points2D camera_idxs cameras =
     (case add_observations options inlier_mask points2D camera_idxs cameras of
        (camera_counts, problem) \<Rightarrow>
          if 0 < NumResiduals problem
          then fold (parameterize_camera ext options camera_counts cameras)
                 [0..<length cameras] (SetQuaternionManifold RigFromWorldRotation problem)
          else problem)"

definition refinement_solver_options :: "AbsolutePoseRefinementOptions \<Rightarrow> SolverOptions" where
  "refinement_solver_options options =
     \<lparr>solver_gradient_tolerance = gradient_tolerance options,
      solver_max_num_iterations = max_num_iterations options,
      solver_num_threads = 1\<rparr>"

text \<open>The memory at the call of the solver: what was passed, and the two copies of it.\<close>

definition refinement_memory ::
  "Vector3d list \<Rightarrow> Rigid3d list \<Rightarrow> Rigid3d \<Rightarrow> Camera list \<Rightarrow> double list option \<Rightarrow> memory" where
  "refinement_memory points3D cams_from_rig rig_from_world cameras rig_from_world_cov =
     \<lparr>m_rig_from_world = rig_from_world,
      m_cameras = cameras,
      m_cams_from_rig = cams_from_rig,
      m_points3D = points3D,
      m_rig_from_world_cov = rig_from_world_cov,
      m_cams_from_rig_copy = cams_from_rig,
      m_points3D_copy = points3D\<rparr>"

text \<open>
  The solver and, when a location for it was passed and there are residuals, the
  covariance of the pose. Printing the summary does not change the memory.
\<close>

definition solve_and_covariance ::
  "refinement_collaborators \<Rightarrow> SolverOptions \<Rightarrow> Problem \<Rightarrow> memory \<Rightarrow> bool \<times> memory" where
  "solve_and_covariance ext solver_options problem m =
     (case ceres_Solve ext solver_options problem m of
        (m1, summary) \<Rightarrow>
          if 0 < NumResiduals problem \<and> m_rig_from_world_cov m \<noteq> None then
            let parameter_blocks = [RigFromWorldRotation, RigFromWorldTranslation]
            in if \<not> Covariance_Compute ext parameter_blocks problem m1 then (False, m1)
               else (IsSolutionUsable summary,
                     m1\<lparr>m_rig_from_world_cov :=
                          Some (GetCovarianceMatrixInTangentSpace ext parameter_blocks problem m1)\<rparr>)
          else (IsSolutionUsable summary, m1))"

text \<open>
  \<^verbatim>\<open>RefineGeneralizedAbsolutePose\<close>. The covariance argument is \<open>None\<close> for a null pointer.
  The result is the verdict and the memory after the call. After the checks every index
  read is valid: the correspondence vectors have one length and the camera indices are
  below the number of cameras and of extrinsics.
\<close>

definition RefineGeneralizedAbsolutePose ::
  "refinement_collaborators \<Rightarrow> AbsolutePoseRefinementOptions \<Rightarrow> bool list \<Rightarrow> Vector2d list
     \<Rightarrow> Vector3d list \<Rightarrow> nat list \<Rightarrow> Rigid3d list \<Rightarrow> Rigid3d \<Rightarrow> Camera list
     \<Rightarrow> double list option \<Rightarrow> error + bool \<times> memory" where
  "RefineGeneralizedAbsolutePose ext options inlier_mask points2D points3D camera_idxs
       cams_from_rig rig_from_world cameras rig_from_world_cov =
     (if length points2D \<noteq> length inlier_mask then Inl PreconditionViolation
      else if length points2D \<noteq> length points3D then Inl PreconditionViolation
      else if length points2D \<noteq> length camera_idxs then Inl PreconditionViolation
      else if length cams_from_rig \<noteq> length cameras then Inl PreconditionViolation
      else case deref_min_element camera_idxs of
        Inl e \<Rightarrow> Inl e
      | Inr min_camera_idx \<Rightarrow>
      if \<not> 0 \<le> min_camera_idx then Inl PreconditionViolation
      else case deref_max_element camera_idxs of
        Inl e \<Rightarrow> Inl e
      | Inr max_camera_idx \<Rightarrow>
      if \<not> max_camera_idx < length cameras then Inl PreconditionViolation
      else if \<not> AbsolutePoseRefinementOptions_Check ext options then Inl PreconditionViolation
      else
        Inr (solve_and_covariance ext (refinement_solver_options options)
               (refinement_problem ext options inlier_mask points2D camera_idxs cameras)
               (refinement_memory points3D cams_from_rig rig_from_world cameras
                  rig_from_world_cov)))"

subsection \<open>Concrete inputs\<close>

text \<open>
  One choice of the collaborators, on which the functions can be run: a camera that maps no
  pixel and divides a pixel threshold by ten, options that are valid when the threshold
  is positive, and engines that accept every correspondence.
\<close>

definition example_collaborators :: collaborators where
  "example_collaborators =
     \<lparr>CamFromImg = (\<lambda>camera point2D. None),
      CamFromImgThreshold = (\<lambda>camera t. binary64_round (t / 10)),
      RANSACOptions_Check = (\<lambda>options. case max_error options of Some t \<Rightarrow> 0 < t | None \<Rightarrow> False),
      RANSAC_GP3P = (\<lambda>options ids X Y.
         \<lparr>success = True,
          support = \<lparr>num_inliers = length X, residual_sum = 0,
                     num_unique_inliers = length (remdups ids)\<rparr>,
          report_inlier_mask = replicate (length X) True,
          model = Rigid3d_identity\<rparr>),
      LORANSAC_GR6P_GR8P = (\<lambda>options X Y.
         \<lparr>success = True,
          support = \<lparr>num_inliers = length X, residual_sum = 0\<rparr>,
          report_inlier_mask = replicate (length X) True,
          model = Rigid3d_identity\<rparr>),
      EstimateRelativePose = (\<lambda>options rays1 rays2 (cam2_from_cam1, n, inliers).
         (True, cam2_from_cam1, length rays1, replicate (length rays1) True))\<rparr>"

definition example_options :: RANSACOptions where
  "example_options = \<lparr>max_error = Some 1\<rparr>"

definition example_camera :: Camera where
  "example_camera = \<lparr>model_id = 0, params = [1, 0, 0]\<rparr>"

definition example_relative_outputs :: RelativeOutputs where
  "example_relative_outputs =
     \<lparr>num_inliers_out = 0, inlier_mask_out = [], rig2_from_rig1_out = None,
      pano2_from_pano1_out = None\<rparr>"

definition example_absolute_outputs :: AbsoluteOutputs where
  "example_absolute_outputs =
     \<lparr>num_inliers_out = 0, inlier_mask_out = [], rig_from_world_out = Rigid3d_identity\<rparr>"

definition example_pixel :: Vector2d where
  "example_pixel = \<lparr>px = 0, py = 0\<rparr>"

text \<open>
  Two cameras without rotation whose centres are \<open>9e-7\<close> to either side of the point
  \<open>(1, 0, 0)\<close>, so \<open>1.8e-6\<close> from each other.
\<close>

definition pano_cam_a :: Rigid3d where
  "pano_cam_a = \<lparr>rotation = \<lparr>qw = 1, qx = 0, qy = 0, qz = 0\<rparr>,
                  translation = \<lparr>vx = - (1 - 9 / 10000000), vy = 0, vz = 0\<rparr>\<rparr>"
definition pano_cam_b :: Rigid3d where
  "pano_cam_b = \<lparr>rotation = \<lparr>qw = 1, qx = 0, qy = 0, qz = 0\<rparr>,
                  translation = \<lparr>vx = - (1 + 9 / 10000000), vy = 0, vz = 0\<rparr>\<rparr>"


subsection \<open>Notions for the statements about the refinement\<close>

text \<open>
  The blocks of the caller's \<open>cams_from_rig\<close> and \<open>points3D\<close>; the blocks an inlier
  correspondence brings into the problem; a coordinate of a block that the solver may not
  change; the blocks of the residual blocks of a problem; and the coordinates of the
  parameters of a camera that the options ask to keep.
\<close>

fun caller_block :: "block \<Rightarrow> bool" where
  "caller_block (CamFromRigRotation i) = True"
| "caller_block (CamFromRigTranslation i) = True"
| "caller_block (Point3D i) = True"
| "caller_block b = False"

definition observation_block :: "bool list \<Rightarrow> nat list \<Rightarrow> nat \<Rightarrow> block \<Rightarrow> bool" where
  "observation_block inlier_mask camera_idxs n b \<longleftrightarrow>
     b = RigFromWorldRotation \<or> b = RigFromWorldTranslation \<or>
     (\<exists>k<n. inlier_mask ! k \<and>
        (b = Point3DCopy k \<or> b = CamFromRigRotationCopy (camera_idxs ! k) \<or>
         b = CamFromRigTranslationCopy (camera_idxs ! k) \<or> b = CameraParams (camera_idxs ! k)))"

definition fixed_coordinate :: "Problem \<Rightarrow> block \<Rightarrow> nat \<Rightarrow> bool" where
  "fixed_coordinate problem b j \<longleftrightarrow> b \<in> set (constant_blocks problem) \<or> held_constant problem b j"

definition residual_parameter_blocks :: "Problem \<Rightarrow> block set" where
  "residual_parameter_blocks problem = set (concat (map parameter_blocks (residual_blocks problem)))"

definition constant_requested ::
  "refinement_collaborators \<Rightarrow> AbsolutePoseRefinementOptions \<Rightarrow> Camera \<Rightarrow> nat \<Rightarrow> bool" where
  "constant_requested ext options camera j \<longleftrightarrow>
     (\<not> refine_focal_length options \<and> \<not> refine_extra_params options) \<or>
     j \<in> set (PrincipalPointIdxs ext camera) \<or>
     (\<not> refine_focal_length options \<and> j \<in> set (FocalLengthIdxs ext camera)) \<or>
     (\<not> refine_extra_params options \<and> j \<in> set (ExtraParamsIdxs ext camera))"

text \<open>
  A solver for concrete runs: it proposes \<open>7\<close> for every coordinate, reports convergence,
  and fails to compute a covariance. Its camera model has the focal length at position
  \<open>0\<close> and the principal point at positions \<open>1\<close> and \<open>2\<close>.
\<close>

definition example_refinement_collaborators :: refinement_collaborators where
  "example_refinement_collaborators =
     \<lparr>AbsolutePoseRefinementOptions_Check = (\<lambda>options. True),
      PrincipalPointIdxs = (\<lambda>camera. [1, 2]),
      FocalLengthIdxs = (\<lambda>camera. [0]),
      ExtraParamsIdxs = (\<lambda>camera. []),
      minimizer = (\<lambda>solver_options problem m. (\<lambda>b j. 7, CONVERGENCE)),
      Covariance_Compute = (\<lambda>parameter_blocks problem m. False),
      GetCovarianceMatrixInTangentSpace = (\<lambda>parameter_blocks problem m. replicate 36 0)\<rparr>"

definition example_refinement_options :: AbsolutePoseRefinementOptions where
  "example_refinement_options =
     \<lparr>gradient_tolerance = 1, max_num_iterations = 100, loss_function_scale = 1,
      refine_focal_length = True, refine_extra_params = False, print_summary = False\<rparr>"

section \<open>Properties\<close>

subsection \<open>Sorting\<close>










subsection \<open>The walk\<close>






subsection \<open>C1: unique ids\<close>




subsection \<open>Evaluation\<close>

lemmas example_defs = EstimateGeneralizedRelativePose_def ThrowCheckCameras_def
      deref_min_element_def deref_max_element_def example_collaborators_def
      example_options_def both_panoramic_def IsPanoramicRig_def at_index_def
      panoramic_ray_def example_relative_outputs_def relative_panoramic_def

lemmas eigen_defs = origin_in_rig_def qrotate_def qinverse_def qvec_def cross_def vscale_def
  vplus_def vneg_def vminus_def squaredNorm_def isApprox_def

subsection \<open>C2: no correspondences\<close>

lemma ThrowCheckCameras_empty:
  "cameras \<noteq> [] \<Longrightarrow> length cams_from_rig = length cameras \<Longrightarrow>
   ThrowCheckCameras [] cams_from_rig cameras = Inl UndefinedBehavior"
  by (simp add: ThrowCheckCameras_def deref_min_element_def)

text \<open>
  Claim C2 says that a call without correspondences and with a well-formed camera list
  returns failure after its checks have passed. The early return for an empty input is
  there, but \<^verbatim>\<open>ThrowCheckCameras\<close> runs before it and reads through the iterators that
  \<^verbatim>\<open>std::minmax_element\<close> returns; for an empty index vector both are its end. The call
  does not reach the early return: its behaviour is undefined.
\<close>

theorem EstimateGeneralizedAbsolutePose_empty:
  assumes "cameras \<noteq> []" and "length cams_from_rig = length cameras"
  shows "EstimateGeneralizedAbsolutePose ext options [] [] [] cams_from_rig cameras outs
         = Inl UndefinedBehavior"
  using assms by (simp add: EstimateGeneralizedAbsolutePose_def ThrowCheckCameras_empty)

theorem EstimateGeneralizedAbsolutePose_empty_witness:
  "[example_camera] \<noteq> [] \<and> length [Rigid3d_identity] = length [example_camera] \<and>
   EstimateGeneralizedAbsolutePose example_collaborators example_options [] [] []
     [Rigid3d_identity] [example_camera] example_absolute_outputs = Inl UndefinedBehavior"
  using EstimateGeneralizedAbsolutePose_empty
    [of "[example_camera]" "[Rigid3d_identity]" example_collaborators example_options
        example_absolute_outputs]
  by simp

subsection \<open>C3: lengths of the index vectors of the relative estimator\<close>

text \<open>
  Claim C3 says that the relative estimator fails with a precondition violation when the
  index vector of a view and its point vector differ in length. It compares the two
  point vectors only. With two camera indices for one correspondence in the first view
  the call passes every check and returns a pose, where the absolute estimator on the
  same vectors fails its check.
\<close>

theorem EstimateGeneralizedRelativePose_length_mismatch:
  "EstimateGeneralizedRelativePose example_collaborators example_options
     [example_pixel] [example_pixel] [0, 0] [0] [Rigid3d_identity] [example_camera]
     example_relative_outputs
   = Inr (True, \<lparr>num_inliers_out = 1, inlier_mask_out = [True], rig2_from_rig1_out = None,
                  pano2_from_pano1_out = Some Rigid3d_identity\<rparr>) \<and>
   EstimateGeneralizedAbsolutePose example_collaborators example_options
     [example_pixel] [chain_p0] [0, 0] [Rigid3d_identity] [example_camera]
     example_absolute_outputs
   = Inl PreconditionViolation"
  by (simp add: example_defs EstimateGeneralizedAbsolutePose_def)

subsection \<open>C4: panoramic rigs\<close>









subsection \<open>C5: one pose output\<close>

lemma relative_panoramic_poses:
  assumes "relative_panoramic ext ransac_options points2D1 points2D2 camera_idxs1 camera_idxs2
             cams_from_rig cameras outs = Inr (ok, outs')"
  shows "rig2_from_rig1_out outs' = rig2_from_rig1_out outs"
    and "ok \<Longrightarrow> \<exists>pose. pano2_from_pano1_out outs' = Some pose"
    and "\<not> ok \<Longrightarrow> pano2_from_pano1_out outs' = pano2_from_pano1_out outs"
  using assms
  by (auto simp: relative_panoramic_def Let_def split: sum.splits prod.splits if_splits)

lemma relative_generalized_poses:
  assumes "relative_generalized ext ransac_options points2D1 points2D2 camera_idxs1 camera_idxs2
             cams_from_rig cameras outs = Inr (ok, outs')"
  shows "pano2_from_pano1_out outs' = pano2_from_pano1_out outs"
    and "ok \<Longrightarrow> \<exists>pose. rig2_from_rig1_out outs' = Some pose"
    and "\<not> ok \<Longrightarrow> rig2_from_rig1_out outs' = rig2_from_rig1_out outs"
  using assms
  by (auto simp: relative_generalized_def Let_def split: sum.splits prod.splits if_splits)

lemma EstimateGeneralizedRelativePose_cases:
  assumes "EstimateGeneralizedRelativePose ext ransac_options points2D1 points2D2 camera_idxs1
             camera_idxs2 cams_from_rig cameras outs = Inr (ok, outs')"
  obtains (empty) "length points2D1 = 0" and "\<not> ok" and "outs' = outs"
  | (panoramic) "both_panoramic camera_idxs1 camera_idxs2 cams_from_rig = Inr True"
      and "relative_panoramic ext ransac_options points2D1 points2D2 camera_idxs1 camera_idxs2
             cams_from_rig cameras outs = Inr (ok, outs')"
  | (generalized) "both_panoramic camera_idxs1 camera_idxs2 cams_from_rig = Inr False"
      and "relative_generalized ext ransac_options points2D1 points2D2 camera_idxs1 camera_idxs2
             cams_from_rig cameras outs = Inr (ok, outs')"
  using assms unfolding EstimateGeneralizedRelativePose_def
  by (simp split: if_splits sum.splits bool.splits)

text \<open>
  Claim C5. A call of \<^verbatim>\<open>EstimateGeneralizedRelativePose\<close> that returns success has written
  exactly one of the two poses: \<open>pano2_from_pano1\<close> when both views are panoramic, and
  \<open>rig2_from_rig1\<close> otherwise; the other pose holds what it held before the call. A call
  that returns failure has written neither.
\<close>

theorem EstimateGeneralizedRelativePose_one_pose:
  assumes "EstimateGeneralizedRelativePose ext ransac_options points2D1 points2D2 camera_idxs1
             camera_idxs2 cams_from_rig cameras outs = Inr (ok, outs')"
  shows "if ok then
           (\<exists>panoramic. both_panoramic camera_idxs1 camera_idxs2 cams_from_rig = Inr panoramic \<and>
              (if panoramic
               then (\<exists>pose. pano2_from_pano1_out outs' = Some pose) \<and>
                    rig2_from_rig1_out outs' = rig2_from_rig1_out outs
               else (\<exists>pose. rig2_from_rig1_out outs' = Some pose) \<and>
                    pano2_from_pano1_out outs' = pano2_from_pano1_out outs))
         else rig2_from_rig1_out outs' = rig2_from_rig1_out outs \<and>
              pano2_from_pano1_out outs' = pano2_from_pano1_out outs"
  using assms
proof (cases rule: EstimateGeneralizedRelativePose_cases)
  case empty
  then show ?thesis by simp
next
  case panoramic
  from relative_panoramic_poses [OF panoramic(2)] panoramic(1) show ?thesis by auto
next
  case generalized
  from relative_generalized_poses [OF generalized(2)] generalized(1) show ?thesis by auto
qed


theorem EstimateGeneralizedRelativePose_one_pose_witness:
  "EstimateGeneralizedRelativePose example_collaborators example_options
     [example_pixel] [example_pixel] [0] [0] [Rigid3d_identity] [example_camera]
     example_relative_outputs
   = Inr (True, \<lparr>num_inliers_out = 1, inlier_mask_out = [True], rig2_from_rig1_out = None,
                  pano2_from_pano1_out = Some Rigid3d_identity\<rparr>) \<and>
   both_panoramic [0] [0] [Rigid3d_identity] = Inr True \<and>
   rig2_from_rig1_out example_relative_outputs = None"
  using EstimateGeneralizedRelativePose_one_pose [of example_collaborators example_options
     "[example_pixel]" "[example_pixel]" "[0]" "[0]" "[Rigid3d_identity]" "[example_camera]"
     example_relative_outputs True "\<lparr>num_inliers_out = 1, inlier_mask_out = [True], rig2_from_rig1_out = None,
                  pano2_from_pano1_out = Some Rigid3d_identity\<rparr>"]
  by (simp add: example_defs)

subsection \<open>The exponent of a double\<close>

text \<open>
  \<open>ilog2 a\<close> is the exponent of the binade of a positive \<open>a\<close>: the power of two at
  \<open>ilog2 a\<close> is at most \<open>a\<close>, and the next one is above it. So the rounding scales
  every number in the normal range to 53 bits before the fraction is rounded.
\<close>

lemma pow2_pos: "0 < pow2 e"
  by (simp add: pow2_def)

lemma floor_pow2_bounds:
  fixes a :: real
  assumes "1 \<le> a"
  defines "k \<equiv> bitlen \<lfloor>a\<rfloor> - 1"
  shows "0 \<le> k" and "2 ^ nat k \<le> a" and "a < 2 * 2 ^ nat k"
proof -
  have n: "0 < \<lfloor>a\<rfloor>" using assms(1) by linarith
  from bitlen_bounds [OF n]
  have lo: "2 ^ nat k \<le> \<lfloor>a\<rfloor>" and hi: "\<lfloor>a\<rfloor> < 2 ^ nat (bitlen \<lfloor>a\<rfloor>)"
    by (simp_all add: k_def)
  have "0 < bitlen \<lfloor>a\<rfloor>"
    using n bitlen_eq_zero_iff [of "\<lfloor>a\<rfloor>"] bitlen_nonneg [of "\<lfloor>a\<rfloor>"] by linarith
  then show k0: "0 \<le> k" by (simp add: k_def)
  have "(2::real) ^ nat k = of_int (2 ^ nat k)" by simp
  also have "\<dots> \<le> of_int \<lfloor>a\<rfloor>" using lo by (simp only: of_int_le_iff)
  also have "\<dots> \<le> a" by simp
  finally show "2 ^ nat k \<le> a" .
  have "nat (bitlen \<lfloor>a\<rfloor>) = Suc (nat k)" using k0 by (simp add: k_def)
  then have "\<lfloor>a\<rfloor> + 1 \<le> 2 * 2 ^ nat k" using hi by simp
  then have "(of_int (\<lfloor>a\<rfloor> + 1) :: real) \<le> of_int (2 * 2 ^ nat k)" by (simp only: of_int_le_iff)
  then have "real_of_int \<lfloor>a\<rfloor> + 1 \<le> 2 * 2 ^ nat k" by simp
  moreover have "a < real_of_int \<lfloor>a\<rfloor> + 1" by linarith
  ultimately show "a < 2 * 2 ^ nat k" by linarith
qed

lemma ilog2_bounds:
  assumes "0 < a"
  shows "pow2 (ilog2 a) \<le> a \<and> a < 2 * pow2 (ilog2 a)"
proof (cases "1 \<le> a")
  case True
  from floor_pow2_bounds [OF True] show ?thesis
    using True by (simp add: ilog2_def pow2_def)
next
  case False
  define b where "b = 1 / a"
  define k where "k = bitlen \<lfloor>b\<rfloor> - 1"
  have b1: "1 \<le> b" using assms False by (simp add: b_def)
  have a: "a = 1 / b" by (simp add: b_def)
  from floor_pow2_bounds [OF b1]
  have k0: "0 \<le> k" and lo: "2 ^ nat k \<le> b" and hi: "b < 2 * 2 ^ nat k"
    by (simp_all add: k_def)
  show ?thesis
  proof (cases "2 ^ nat k = b")
    case True
    then have "ilog2 a = - k" using False by (simp add: ilog2_def k_def b_def Let_def)
    moreover have "pow2 (- k) = a" using True k0 assms by (auto simp: pow2_def a)
    ultimately show ?thesis using assms by simp
  next
    case ne: False
    then have il: "ilog2 a = - k - 1" using False by (simp add: ilog2_def k_def b_def Let_def)
    have p: "pow2 (- k - 1) = 1 / (2 * 2 ^ nat k)"
      using k0 by (simp add: pow2_def nat_add_distrib)
    have "1 / (2 * 2 ^ nat k) < 1 / b"
      using hi b1 by (intro divide_strict_left_mono) auto
    moreover have "1 / b < 1 / 2 ^ nat k"
      using lo ne b1 by (intro divide_strict_left_mono) auto
    ultimately show ?thesis unfolding il p by (simp add: a)
  qed
qed

text \<open>
  The rounded value is a multiple of the spacing of the binade, and no other multiple is
  nearer: it is within half the spacing of the exact value.
\<close>

lemma round_half_even_nearest: "\<bar>of_int (round_half_even a) - a\<bar> \<le> 1 / 2"
proof -
  have "of_int \<lfloor>a\<rfloor> \<le> a" "a < of_int \<lfloor>a\<rfloor> + 1" by linarith+
  then show ?thesis
    by (auto simp: round_half_even_def Let_def)
qed

lemma binary64_round_nearest:
  "\<bar>binary64_round a - a\<bar> \<le> pow2 (max (ilog2 \<bar>a\<bar> - 52) (- 1074)) / 2"
proof (cases "a = 0")
  case True
  then show ?thesis using pow2_pos [of "max (ilog2 \<bar>a\<bar> - 52) (- 1074)"]
    by (simp add: binary64_round_def)
next
  case False
  define e where "e = max (ilog2 \<bar>a\<bar> - 52) (- 1074)"
  have p: "0 < pow2 e" by (rule pow2_pos)
  have "binary64_round a - a = (of_int (round_half_even (a / pow2 e)) - a / pow2 e) * pow2 e"
    using False p by (simp add: binary64_round_def e_def [symmetric] Let_def algebra_simps)
  then have "\<bar>binary64_round a - a\<bar> = \<bar>of_int (round_half_even (a / pow2 e)) - a / pow2 e\<bar> * pow2 e"
    using p by (simp add: abs_mult)
  also have "\<dots> \<le> 1 / 2 * pow2 e"
    using p round_half_even_nearest [of "a / pow2 e"] by (intro mult_right_mono) simp_all
  finally show ?thesis by (simp add: e_def)
qed

subsection \<open>C6: the averaged threshold\<close>


lemmas round_defs = binary64_round_def ilog2_def pow2_def round_half_even_def Let_def
  compute_bitlen

lemma round_tenth: "binary64_round (1 / 10) = 3602879701896397 / 36028797018963968"
  by (simp add: round_defs)

lemma round_e0: "binary64_round (3602879701896397 / 36028797018963968)
                 = 3602879701896397 / 36028797018963968"
  by (simp add: round_defs)




lemma example_threshold:
  "CamFromImgThreshold example_collaborators camera 1
   = 3602879701896397 / 36028797018963968"
  by (simp add: example_collaborators_def round_tenth)





subsection \<open>C10: which inlier count is reported\<close>

lemma relative_generalized_count:
  assumes "relative_generalized ext ransac_options points2D1 points2D2 camera_idxs1 camera_idxs2
             cams_from_rig cameras outs = Inr (True, outs')"
  shows "\<exists>points1 points2.
       collect (generalized_observation ext points2D1 camera_idxs1 cams_from_rig cameras)
         [0..<length points2D1] = Inr points1 \<and>
       collect (generalized_observation ext points2D2 camera_idxs2 cams_from_rig cameras)
         [0..<length points2D1] = Inr points2 \<and>
       num_inliers_out outs' =
         num_inliers (support (LORANSAC_GR6P_GR8P ext ransac_options points1 points2))"
  using assms
  by (auto simp: relative_generalized_def Let_def split: sum.splits if_splits)

lemma absolute_consensus_count:
  assumes "absolute_consensus ext options points2D points3D camera_idxs cams_from_rig
             cameras outs = Inr (True, outs')"
  shows "\<exists>max_error_cam.
       ComputeMaxErrorInCamera ext camera_idxs cameras (max_error options) = Inr max_error_cam \<and>
       num_inliers_out outs' =
         num_unique_inliers (support (RANSAC_GP3P ext (options\<lparr>max_error := max_error_cam\<rparr>)
           (ComputeUniquePointIds points3D)
           (absolute_rig_points2D ext points2D camera_idxs cams_from_rig cameras) points3D))"
  using assms
  by (auto simp: absolute_consensus_def Let_def split: sum.splits if_splits)

lemma EstimateGeneralizedAbsolutePose_success:
  assumes "EstimateGeneralizedAbsolutePose ext options points2D points3D camera_idxs cams_from_rig
      cameras outs = Inr (True, outs')"
  shows "absolute_consensus ext options points2D points3D camera_idxs cams_from_rig
             cameras outs = Inr (True, outs')"
  using assms unfolding EstimateGeneralizedAbsolutePose_def
  by (simp split: if_splits sum.splits)

lemma relative_panoramic_count:
  assumes "relative_panoramic ext ransac_options points2D1 points2D2 camera_idxs1 camera_idxs2
             cams_from_rig cameras outs = Inr (True, outs')"
  shows "\<exists>cam_rays1 cam_rays2 cam2_from_cam1 n inliers.
       collect (panoramic_ray ext points2D1 camera_idxs1 cams_from_rig cameras)
         [0..<length points2D1] = Inr cam_rays1 \<and>
       collect (panoramic_ray ext points2D2 camera_idxs2 cams_from_rig cameras)
         [0..<length points2D1] = Inr cam_rays2 \<and>
       EstimateRelativePose ext ransac_options cam_rays1 cam_rays2
         (Rigid3d_identity, num_inliers_out outs, inlier_mask_out outs)
         = (True, cam2_from_cam1, n, inliers) \<and>
       num_inliers_out outs' = n"
  using assms
  by (auto simp: relative_panoramic_def Let_def split: sum.splits prod.splits if_splits)

text \<open>
  Claim C10. A successful call of the relative estimator on views that are not both
  panoramic reports the field \<open>num_inliers\<close> of the support of the six/eight-point
  consensus, the plain count; on two panoramic views it reports the count that the
  two-view estimation returns. Neither is given ids of 3D points. A successful call of the
  absolute estimator reports the field \<open>num_unique_inliers\<close> of a consensus that was given
  the ids of \<^verbatim>\<open>ComputeUniquePointIds\<close>.
\<close>

theorem num_inliers_plain_or_unique:
  "(EstimateGeneralizedRelativePose ext ransac_options points2D1 points2D2 camera_idxs1
      camera_idxs2 cams_from_rig cameras outs = Inr (True, outs') \<and>
    both_panoramic camera_idxs1 camera_idxs2 cams_from_rig = Inr False \<longrightarrow>
    (\<exists>points1 points2.
       collect (generalized_observation ext points2D1 camera_idxs1 cams_from_rig cameras)
         [0..<length points2D1] = Inr points1 \<and>
       collect (generalized_observation ext points2D2 camera_idxs2 cams_from_rig cameras)
         [0..<length points2D1] = Inr points2 \<and>
       num_inliers_out outs' =
         num_inliers (support (LORANSAC_GR6P_GR8P ext ransac_options points1 points2)))) \<and>
   (EstimateGeneralizedRelativePose ext ransac_options points2D1 points2D2 camera_idxs1
      camera_idxs2 cams_from_rig cameras outs = Inr (True, outs') \<and>
    both_panoramic camera_idxs1 camera_idxs2 cams_from_rig = Inr True \<longrightarrow>
    (\<exists>cam_rays1 cam_rays2 cam2_from_cam1 n inliers.
       collect (panoramic_ray ext points2D1 camera_idxs1 cams_from_rig cameras)
         [0..<length points2D1] = Inr cam_rays1 \<and>
       collect (panoramic_ray ext points2D2 camera_idxs2 cams_from_rig cameras)
         [0..<length points2D1] = Inr cam_rays2 \<and>
       EstimateRelativePose ext ransac_options cam_rays1 cam_rays2
         (Rigid3d_identity, num_inliers_out outs, inlier_mask_out outs)
         = (True, cam2_from_cam1, n, inliers) \<and>
       num_inliers_out outs' = n)) \<and>
   (EstimateGeneralizedAbsolutePose ext options points2D points3D camera_idxs cams_from_rig'
      cameras' aouts = Inr (True, aouts') \<longrightarrow>
    (\<exists>max_error_cam.
       ComputeMaxErrorInCamera ext camera_idxs cameras' (max_error options) = Inr max_error_cam \<and>
       num_inliers_out aouts' =
         num_unique_inliers (support (RANSAC_GP3P ext (options\<lparr>max_error := max_error_cam\<rparr>)
           (ComputeUniquePointIds points3D)
           (absolute_rig_points2D ext points2D camera_idxs cams_from_rig' cameras') points3D))))"
proof (intro conjI impI)
  assume a: "EstimateGeneralizedRelativePose ext ransac_options points2D1 points2D2 camera_idxs1
      camera_idxs2 cams_from_rig cameras outs = Inr (True, outs') \<and>
    both_panoramic camera_idxs1 camera_idxs2 cams_from_rig = Inr False"
  then have "relative_generalized ext ransac_options points2D1 points2D2 camera_idxs1 camera_idxs2
             cams_from_rig cameras outs = Inr (True, outs')"
    by (auto elim: EstimateGeneralizedRelativePose_cases)
  then show "\<exists>points1 points2.
       collect (generalized_observation ext points2D1 camera_idxs1 cams_from_rig cameras)
         [0..<length points2D1] = Inr points1 \<and>
       collect (generalized_observation ext points2D2 camera_idxs2 cams_from_rig cameras)
         [0..<length points2D1] = Inr points2 \<and>
       num_inliers_out outs' =
         num_inliers (support (LORANSAC_GR6P_GR8P ext ransac_options points1 points2))"
    by (rule relative_generalized_count)
next
  assume a: "EstimateGeneralizedRelativePose ext ransac_options points2D1 points2D2 camera_idxs1
      camera_idxs2 cams_from_rig cameras outs = Inr (True, outs') \<and>
    both_panoramic camera_idxs1 camera_idxs2 cams_from_rig = Inr True"
  then have "relative_panoramic ext ransac_options points2D1 points2D2 camera_idxs1 camera_idxs2
             cams_from_rig cameras outs = Inr (True, outs')"
    by (auto elim: EstimateGeneralizedRelativePose_cases)
  then show "\<exists>cam_rays1 cam_rays2 cam2_from_cam1 n inliers.
       collect (panoramic_ray ext points2D1 camera_idxs1 cams_from_rig cameras)
         [0..<length points2D1] = Inr cam_rays1 \<and>
       collect (panoramic_ray ext points2D2 camera_idxs2 cams_from_rig cameras)
         [0..<length points2D1] = Inr cam_rays2 \<and>
       EstimateRelativePose ext ransac_options cam_rays1 cam_rays2
         (Rigid3d_identity, num_inliers_out outs, inlier_mask_out outs)
         = (True, cam2_from_cam1, n, inliers) \<and>
       num_inliers_out outs' = n"
    by (rule relative_panoramic_count)
next
  assume "EstimateGeneralizedAbsolutePose ext options points2D points3D camera_idxs cams_from_rig'
      cameras' aouts = Inr (True, aouts')"
  then show "\<exists>max_error_cam.
       ComputeMaxErrorInCamera ext camera_idxs cameras' (max_error options) = Inr max_error_cam \<and>
       num_inliers_out aouts' =
         num_unique_inliers (support (RANSAC_GP3P ext (options\<lparr>max_error := max_error_cam\<rparr>)
           (ComputeUniquePointIds points3D)
           (absolute_rig_points2D ext points2D camera_idxs cams_from_rig' cameras') points3D))"
    by (intro absolute_consensus_count EstimateGeneralizedAbsolutePose_success)
qed

lemma example_relative_generalized:
  "EstimateGeneralizedRelativePose example_collaborators example_options
     [example_pixel, example_pixel] [example_pixel, example_pixel] [0, 1] [0, 1]
     [pano_cam_a, pano_cam_b] [example_camera, example_camera] example_relative_outputs
   = Inr (True, \<lparr>num_inliers_out = 2, inlier_mask_out = [True, True],
                  rig2_from_rig1_out = Some Rigid3d_identity, pano2_from_pano1_out = None\<rparr>)"
  by (simp add: example_defs relative_generalized_def generalized_observation_def
      eigen_defs pano_cam_a_def pano_cam_b_def Let_def upt_rec)

lemma example_both_panoramic:
  "both_panoramic [0, 1] [0, 1] [pano_cam_a, pano_cam_b] = Inr False"
  by (simp add: both_panoramic_def IsPanoramicRig_def at_index_def eigen_defs pano_cam_a_def
      pano_cam_b_def Let_def)

lemma example_max_error:
  "ComputeMaxErrorInCamera example_collaborators [0] [example_camera] (Some 1)
   = Inr (Some (3602879701896397 / 36028797018963968))"
  by (simp add: ComputeMaxErrorInCamera_def at_index_def fl_add_def fl_div_def
      example_threshold round_e0)

lemma example_unique_ids: "ComputeUniquePointIds [chain_p0] = [0]"
  by (simp add: ComputeUniquePointIds_def sorted_point3D_ids_def sort_by_def
      unique_walk.simps isApprox_def chain_p0_def vminus_def squaredNorm_def)

lemma example_absolute:
  "EstimateGeneralizedAbsolutePose example_collaborators example_options
     [example_pixel] [chain_p0] [0] [Rigid3d_identity] [example_camera] example_absolute_outputs
   = Inr (True, \<lparr>num_inliers_out = 1, inlier_mask_out = [True],
                  rig_from_world_out = Rigid3d_identity\<rparr>)"
  by (simp add: EstimateGeneralizedAbsolutePose_def ThrowCheckCameras_def deref_min_element_def
      deref_max_element_def absolute_consensus_def example_max_error [unfolded example_options_def]
      example_options_def example_absolute_outputs_def absolute_rig_points2D_def
      example_unique_ids)
    (simp add: example_collaborators_def)

lemma example_relative_panoramic:
  "EstimateGeneralizedRelativePose example_collaborators example_options
     [example_pixel] [example_pixel] [0] [0] [Rigid3d_identity] [example_camera]
     example_relative_outputs
   = Inr (True, \<lparr>num_inliers_out = 1, inlier_mask_out = [True], rig2_from_rig1_out = None,
                  pano2_from_pano1_out = Some Rigid3d_identity\<rparr>) \<and>
   both_panoramic [0] [0] [Rigid3d_identity] = Inr True"
  by (simp add: example_defs)

theorem num_inliers_plain_or_unique_witness:
  "EstimateGeneralizedRelativePose example_collaborators example_options
     [example_pixel, example_pixel] [example_pixel, example_pixel] [0, 1] [0, 1]
     [pano_cam_a, pano_cam_b] [example_camera, example_camera] example_relative_outputs
   = Inr (True, \<lparr>num_inliers_out = 2, inlier_mask_out = [True, True],
                  rig2_from_rig1_out = Some Rigid3d_identity, pano2_from_pano1_out = None\<rparr>) \<and>
   both_panoramic [0, 1] [0, 1] [pano_cam_a, pano_cam_b] = Inr False \<and>
   EstimateGeneralizedRelativePose example_collaborators example_options
     [example_pixel] [example_pixel] [0] [0] [Rigid3d_identity] [example_camera]
     example_relative_outputs
   = Inr (True, \<lparr>num_inliers_out = 1, inlier_mask_out = [True], rig2_from_rig1_out = None,
                  pano2_from_pano1_out = Some Rigid3d_identity\<rparr>) \<and>
   both_panoramic [0] [0] [Rigid3d_identity] = Inr True \<and>
   EstimateGeneralizedAbsolutePose example_collaborators example_options
     [example_pixel] [chain_p0] [0] [Rigid3d_identity] [example_camera] example_absolute_outputs
   = Inr (True, \<lparr>num_inliers_out = 1, inlier_mask_out = [True],
                  rig_from_world_out = Rigid3d_identity\<rparr>) \<and>
   (\<exists>points1 points2.
      num_inliers (support (LORANSAC_GR6P_GR8P example_collaborators example_options points1 points2)) = 2) \<and>
   (\<exists>cam_rays1 cam_rays2 cam2_from_cam1 inliers.
      EstimateRelativePose example_collaborators example_options cam_rays1 cam_rays2
        (Rigid3d_identity, num_inliers_out example_relative_outputs,
         inlier_mask_out example_relative_outputs)
      = (True, cam2_from_cam1, 1, inliers)) \<and>
   (\<exists>max_error_cam.
      ComputeMaxErrorInCamera example_collaborators [0] [example_camera] (max_error example_options)
        = Inr max_error_cam \<and>
      num_unique_inliers (support (RANSAC_GP3P example_collaborators
          (example_options\<lparr>max_error := max_error_cam\<rparr>) (ComputeUniquePointIds [chain_p0])
          (absolute_rig_points2D example_collaborators [example_pixel] [0] [Rigid3d_identity]
             [example_camera]) [chain_p0])) = 1)"
  using num_inliers_plain_or_unique [of example_collaborators example_options
     "[example_pixel, example_pixel]" "[example_pixel, example_pixel]" "[0, 1]" "[0, 1]"
     "[pano_cam_a, pano_cam_b]" "[example_camera, example_camera]" example_relative_outputs
     "\<lparr>num_inliers_out = 2, inlier_mask_out = [True, True],
       rig2_from_rig1_out = Some Rigid3d_identity, pano2_from_pano1_out = None\<rparr>"
     example_options "[example_pixel]" "[chain_p0]" "[0]" "[Rigid3d_identity]" "[example_camera]"
     example_absolute_outputs
     "\<lparr>num_inliers_out = 1, inlier_mask_out = [True], rig_from_world_out = Rigid3d_identity\<rparr>"]
    num_inliers_plain_or_unique [of example_collaborators example_options
     "[example_pixel]" "[example_pixel]" "[0]" "[0]" "[Rigid3d_identity]" "[example_camera]"
     example_relative_outputs
     "\<lparr>num_inliers_out = 1, inlier_mask_out = [True], rig2_from_rig1_out = None,
       pano2_from_pano1_out = Some Rigid3d_identity\<rparr>",
     THEN conjunct2, THEN conjunct1]
    example_relative_generalized example_both_panoramic example_absolute
    example_relative_panoramic
  by auto

subsection \<open>The memory under the solver\<close>

lemma set_problem_blocks: "set (problem_blocks problem) = residual_parameter_blocks problem"
  by (simp add: problem_blocks_def residual_parameter_blocks_def)

lemma write_block_cameras_length: "length (m_cameras (write_block m b cs)) = length (m_cameras m)"
  by (cases b) simp_all

lemma write_block_camera:
  "i < length (m_cameras m) \<Longrightarrow>
   m_cameras (write_block m b cs) ! i =
     (if b = CameraParams i then (m_cameras m ! i)\<lparr>params := cs\<rparr> else m_cameras m ! i)"
  by (cases b) (auto simp: nth_list_update)

lemma write_block_caller:
  "\<not> caller_block b \<Longrightarrow>
   m_cams_from_rig (write_block m b cs) = m_cams_from_rig m \<and>
   m_points3D (write_block m b cs) = m_points3D m"
  by (cases b) simp_all

lemma write_block_cov: "m_rig_from_world_cov (write_block m b cs) = m_rig_from_world_cov m"
  by (cases b) simp_all

lemma fold_write_cameras_length:
  "length (m_cameras (fold (\<lambda>b m'. write_block m' b (v b)) bs m)) = length (m_cameras m)"
  by (induction bs arbitrary: m) (simp_all add: write_block_cameras_length)

lemma fold_write_camera:
  "i < length (m_cameras m) \<Longrightarrow>
   m_cameras (fold (\<lambda>b m'. write_block m' b (v b)) bs m) ! i =
     (if CameraParams i \<in> set bs then (m_cameras m ! i)\<lparr>params := v (CameraParams i)\<rparr>
      else m_cameras m ! i)"
proof (induction bs arbitrary: m)
  case Nil
  then show ?case by simp
next
  case (Cons b bs)
  have "i < length (m_cameras (write_block m b (v b)))"
    using Cons.prems by (simp add: write_block_cameras_length)
  from Cons.IH [OF this] show ?case
    using Cons.prems by (auto simp: write_block_camera)
qed

lemma fold_write_caller:
  "\<forall>b\<in>set bs. \<not> caller_block b \<Longrightarrow>
   m_cams_from_rig (fold (\<lambda>b m'. write_block m' b (v b)) bs m) = m_cams_from_rig m \<and>
   m_points3D (fold (\<lambda>b m'. write_block m' b (v b)) bs m) = m_points3D m"
  by (induction bs arbitrary: m) (simp_all add: write_block_caller)


lemma ceres_Solve_cameras_length:
  "length (m_cameras (fst (ceres_Solve ext so problem m))) = length (m_cameras m)"
  by (simp add: ceres_Solve_def fold_write_cameras_length split: prod.splits)

lemma ceres_Solve_caller:
  assumes "\<forall>b\<in>residual_parameter_blocks problem. \<not> caller_block b"
  shows "m_cams_from_rig (fst (ceres_Solve ext so problem m)) = m_cams_from_rig m"
    and "m_points3D (fst (ceres_Solve ext so problem m)) = m_points3D m"
  using assms fold_write_caller [of "problem_blocks problem" _ m]
  by (simp_all add: ceres_Solve_def set_problem_blocks split: prod.splits)

lemma ceres_Solve_camera_untouched:
  assumes "i < length (m_cameras m)" and "CameraParams i \<notin> residual_parameter_blocks problem"
  shows "m_cameras (fst (ceres_Solve ext so problem m)) ! i = m_cameras m ! i"
  using assms by (simp add: ceres_Solve_def fold_write_camera set_problem_blocks split: prod.splits)

lemma solved_block_length: "length (solved_block problem m proposal b) = length (read_block m b)"
  by (simp add: solved_block_def Let_def)

lemma solved_block_fixed:
  assumes "fixed_coordinate problem b j" and "j < length (read_block m b)"
  shows "solved_block problem m proposal b ! j = read_block m b ! j"
  using assms by (auto simp: solved_block_def fixed_coordinate_def Let_def)

lemma solved_block_constant:
  assumes "b \<in> set (constant_blocks problem)"
  shows "solved_block problem m proposal b = read_block m b"
  using assms by (simp add: solved_block_def)

lemma ceres_Solve_camera:
  assumes "i < length (m_cameras m)"
  shows "model_id (m_cameras (fst (ceres_Solve ext so problem m)) ! i) = model_id (m_cameras m ! i)"
    and "length (params (m_cameras (fst (ceres_Solve ext so problem m)) ! i))
         = length (params (m_cameras m ! i))"
    and "CameraParams i \<in> set (constant_blocks problem) \<Longrightarrow>
         params (m_cameras (fst (ceres_Solve ext so problem m)) ! i) = params (m_cameras m ! i)"
    and "fixed_coordinate problem (CameraParams i) j \<Longrightarrow> j < length (params (m_cameras m ! i)) \<Longrightarrow>
         params (m_cameras (fst (ceres_Solve ext so problem m)) ! i) ! j = params (m_cameras m ! i) ! j"
  using assms
  by (auto simp: ceres_Solve_def fold_write_camera solved_block_length solved_block_fixed
      solved_block_constant split: prod.splits)


subsection \<open>The problem of the refinement\<close>

lemma add_observation_blocks:
  "residual_parameter_blocks (snd (add_observation options inlier_mask points2D camera_idxs cameras i st))
   = residual_parameter_blocks (snd st) \<union>
     (if inlier_mask ! i
      then {CamFromRigRotationCopy (camera_idxs ! i), CamFromRigTranslationCopy (camera_idxs ! i),
            RigFromWorldRotation, RigFromWorldTranslation, Point3DCopy i,
            CameraParams (camera_idxs ! i)}
      else {})"
  by (cases st)
    (auto simp: add_observation_def residual_parameter_blocks_def AddResidualBlock_def
      SetParameterBlockConstant_def Let_def)

lemma fold_add_observation_blocks:
  assumes "b \<in> residual_parameter_blocks
             (snd (fold (add_observation options inlier_mask points2D camera_idxs cameras) ks st))"
  shows "b \<in> residual_parameter_blocks (snd st) \<or>
         b = RigFromWorldRotation \<or> b = RigFromWorldTranslation \<or>
         (\<exists>k\<in>set ks. inlier_mask ! k \<and>
            (b = Point3DCopy k \<or> b = CamFromRigRotationCopy (camera_idxs ! k) \<or>
             b = CamFromRigTranslationCopy (camera_idxs ! k) \<or> b = CameraParams (camera_idxs ! k)))"
  using assms
proof (induction ks arbitrary: st)
  case Nil
  then show ?case by simp
next
  case (Cons k ks)
  from Cons.IH [of "add_observation options inlier_mask points2D camera_idxs cameras k st"] Cons.prems
  show ?case
    by (auto simp: add_observation_blocks split: if_splits)
qed

lemma add_observation_counts_length:
  "length (fst (add_observation options inlier_mask points2D camera_idxs cameras i st)) = length (fst st)"
  by (cases st) (simp add: add_observation_def Let_def)

lemma add_observation_counts_mono:
  "fst st ! c \<le> fst (add_observation options inlier_mask points2D camera_idxs cameras i st) ! c"
proof (cases st)
  case (Pair counts problem)
  show ?thesis
  proof (cases "camera_idxs ! i < length counts")
    case True
    then show ?thesis
      by (simp add: Pair add_observation_def Let_def nth_list_update)
  next
    case False
    then have "counts[camera_idxs ! i := Suc (counts ! (camera_idxs ! i))] = counts"
      by (simp add: list_update_beyond)
    then show ?thesis
      by (simp add: Pair add_observation_def Let_def)
  qed
qed

lemma add_observation_counts_pos:
  assumes "inlier_mask ! i" and "camera_idxs ! i < length (fst st)"
  shows "0 < fst (add_observation options inlier_mask points2D camera_idxs cameras i st)
               ! (camera_idxs ! i)"
  using assms by (cases st) (simp add: add_observation_def Let_def)

lemma fold_add_observation_counts:
  "length (fst (fold (add_observation options inlier_mask points2D camera_idxs cameras) ks st))
   = length (fst st)"
  "fst st ! c \<le> fst (fold (add_observation options inlier_mask points2D camera_idxs cameras) ks st) ! c"
proof (induction ks arbitrary: st)
  case Nil
  { case 1 show ?case by simp }
  { case 2 show ?case by simp }
next
  case (Cons k ks)
  { case 1 show ?case by (simp add: Cons.IH(1) add_observation_counts_length) }
  { case 2 show ?case
      using Cons.IH(2) [of "add_observation options inlier_mask points2D camera_idxs cameras k st"]
        add_observation_counts_mono [of st c options inlier_mask points2D camera_idxs cameras k]
      by simp }
qed

lemma fold_add_observation_counted:
  assumes "k \<in> set ks" and "inlier_mask ! k" and "camera_idxs ! k < length (fst st)"
  shows "0 < fst (fold (add_observation options inlier_mask points2D camera_idxs cameras) ks st)
               ! (camera_idxs ! k)"
  using assms
proof (induction ks arbitrary: st)
  case Nil
  then show ?case by simp
next
  case (Cons a ks)
  let ?st = "add_observation options inlier_mask points2D camera_idxs cameras a st"
  have len: "camera_idxs ! k < length (fst ?st)"
    using Cons.prems(3) by (simp add: add_observation_counts_length)
  show ?case
  proof (cases "a = k")
    case True
    have "0 < fst ?st ! (camera_idxs ! k)"
      using Cons.prems True by (simp add: add_observation_counts_pos)
    moreover have "fst ?st ! (camera_idxs ! k)
        \<le> fst (fold (add_observation options inlier_mask points2D camera_idxs cameras) ks ?st)
            ! (camera_idxs ! k)"
      by (rule fold_add_observation_counts(2))
    ultimately show ?thesis by simp
  next
    case False
    then have "k \<in> set ks" using Cons.prems(1) by simp
    from Cons.IH [OF this Cons.prems(2) len] show ?thesis by simp
  qed
qed

lemma fold_add_observation_residuals:
  "residual_blocks (snd (fold (add_observation options inlier_mask points2D camera_idxs cameras) ks st)) \<noteq> []
   \<longleftrightarrow> residual_blocks (snd st) \<noteq> [] \<or> (\<exists>k\<in>set ks. inlier_mask ! k)"
proof (induction ks arbitrary: st)
  case Nil
  then show ?case by simp
next
  case (Cons a ks)
  have "residual_blocks (snd (add_observation options inlier_mask points2D camera_idxs cameras a st)) \<noteq> []
        \<longleftrightarrow> residual_blocks (snd st) \<noteq> [] \<or> inlier_mask ! a"
    by (cases st)
      (simp add: add_observation_def Let_def AddResidualBlock_def SetParameterBlockConstant_def)
  then show ?case by (auto simp: Cons.IH)
qed

lemma parameterize_camera_residuals:
  "residual_blocks (parameterize_camera ext options counts cameras i problem) = residual_blocks problem"
  by (simp add: parameterize_camera_def Let_def SetParameterBlockConstant_def SetSubsetManifold_def
      SetManifold_def)

lemma fold_parameterize_camera_residuals:
  "residual_blocks (fold (parameterize_camera ext options counts cameras) ks problem)
   = residual_blocks problem"
  by (induction ks arbitrary: problem) (simp_all add: parameterize_camera_residuals)

lemma parameterize_camera_fixes:
  assumes "counts ! i \<noteq> 0" and "constant_requested ext options (cameras ! i) j"
  shows "fixed_coordinate (parameterize_camera ext options counts cameras i problem) (CameraParams i) j"
  using assms
  by (auto simp: parameterize_camera_def Let_def fixed_coordinate_def held_constant_def
      SetParameterBlockConstant_def SetSubsetManifold_def SetManifold_def
      constant_requested_def constant_camera_params_def)

lemma parameterize_camera_keeps:
  assumes "i' \<noteq> i" and "fixed_coordinate problem (CameraParams i) j"
  shows "fixed_coordinate (parameterize_camera ext options counts cameras i' problem) (CameraParams i) j"
  using assms
  by (auto simp: parameterize_camera_def Let_def fixed_coordinate_def held_constant_def
      SetParameterBlockConstant_def SetSubsetManifold_def SetManifold_def)

lemma fold_parameterize_camera_keeps:
  assumes "i \<notin> set ks" and "fixed_coordinate problem (CameraParams i) j"
  shows "fixed_coordinate (fold (parameterize_camera ext options counts cameras) ks problem)
           (CameraParams i) j"
  using assms
  by (induction ks arbitrary: problem) (auto simp: parameterize_camera_keeps)

lemma fold_parameterize_camera_fixes:
  assumes "i \<in> set ks" and "distinct ks" and "counts ! i \<noteq> 0"
    and "constant_requested ext options (cameras ! i) j"
  shows "fixed_coordinate (fold (parameterize_camera ext options counts cameras) ks problem)
           (CameraParams i) j"
  using assms(1,2)
proof (induction ks arbitrary: problem)
  case Nil
  then show ?case by simp
next
  case (Cons a ks)
  show ?case
  proof (cases "a = i")
    case True
    then have "i \<notin> set ks" using Cons.prems(2) by simp
    then show ?thesis
      using True assms(3,4) by (simp add: fold_parameterize_camera_keeps parameterize_camera_fixes)
  next
    case False
    then show ?thesis using Cons by simp
  qed
qed


lemma refinement_problem_residuals:
  "residual_blocks (refinement_problem ext options inlier_mask points2D camera_idxs cameras)
   = residual_blocks (snd (add_observations options inlier_mask points2D camera_idxs cameras))"
  by (simp add: refinement_problem_def fold_parameterize_camera_residuals SetQuaternionManifold_def
      SetManifold_def split: prod.splits)

lemma refinement_problem_blocks:
  assumes "b \<in> residual_parameter_blocks
             (refinement_problem ext options inlier_mask points2D camera_idxs cameras)"
  shows "observation_block inlier_mask camera_idxs (length points2D) b"
proof -
  have "b \<in> residual_parameter_blocks
          (snd (fold (add_observation options inlier_mask points2D camera_idxs cameras)
                  [0..<length points2D] (replicate (length cameras) 0, empty_Problem)))"
    using assms
    by (simp add: residual_parameter_blocks_def refinement_problem_residuals add_observations_def)
  from fold_add_observation_blocks [OF this] show ?thesis
    by (auto simp: observation_block_def residual_parameter_blocks_def empty_Problem_def)
qed

lemma observation_block_not_caller:
  "observation_block inlier_mask camera_idxs n b \<Longrightarrow> \<not> caller_block b"
  by (auto simp: observation_block_def)

lemma refinement_problem_no_inlier:
  assumes "\<forall>k<length points2D. inlier_mask ! k \<longrightarrow> camera_idxs ! k \<noteq> i"
  shows "CameraParams i \<notin> residual_parameter_blocks
           (refinement_problem ext options inlier_mask points2D camera_idxs cameras)"
  using assms refinement_problem_blocks [of "CameraParams i" ext options inlier_mask points2D
      camera_idxs cameras]
  by (auto simp: observation_block_def)

lemma refinement_problem_fixes:
  assumes "CameraParams i \<in> residual_parameter_blocks
             (refinement_problem ext options inlier_mask points2D camera_idxs cameras)"
    and "i < length cameras"
    and "constant_requested ext options (cameras ! i) j"
  shows "fixed_coordinate (refinement_problem ext options inlier_mask points2D camera_idxs cameras)
           (CameraParams i) j"
proof -
  define st where "st = add_observations options inlier_mask points2D camera_idxs cameras"
  from refinement_problem_blocks [OF assms(1)]
  obtain k where k: "k < length points2D" "inlier_mask ! k" "camera_idxs ! k = i"
    by (auto simp: observation_block_def)
  have kin: "k \<in> set [0..<length points2D]" using k(1) by simp
  have "0 < fst st ! (camera_idxs ! k)"
    unfolding st_def add_observations_def
    using k(2) assms(2) k(3) by (intro fold_add_observation_counted [OF kin]) simp_all
  then have pos: "fst st ! i \<noteq> 0" using k(3) by simp
  have "residual_blocks (snd st) \<noteq> []"
    unfolding st_def add_observations_def
    using kin k(2) by (subst fold_add_observation_residuals) blast
  then have num: "0 < NumResiduals (snd st)" by (simp add: NumResiduals_def)
  have eq: "refinement_problem ext options inlier_mask points2D camera_idxs cameras
        = fold (parameterize_camera ext options (fst st) cameras) [0..<length cameras]
            (SetQuaternionManifold RigFromWorldRotation (snd st))"
    using num by (cases st) (simp add: refinement_problem_def st_def [symmetric])
  show ?thesis
    unfolding eq using assms(2,3) pos by (intro fold_parameterize_camera_fixes) simp_all
qed

lemma solve_and_covariance_memory:
  assumes "solve_and_covariance ext so problem m = (ok, m')"
  shows "m_cameras m' = m_cameras (fst (ceres_Solve ext so problem m))"
    and "m_cams_from_rig m' = m_cams_from_rig (fst (ceres_Solve ext so problem m))"
    and "m_points3D m' = m_points3D (fst (ceres_Solve ext so problem m))"
  using assms
  by (auto simp: solve_and_covariance_def Let_def split: prod.splits if_splits)

lemma RefineGeneralizedAbsolutePose_returns:
  assumes "RefineGeneralizedAbsolutePose ext options inlier_mask points2D points3D camera_idxs
             cams_from_rig rig_from_world cameras rig_from_world_cov = Inr (ok, m')"
  shows "solve_and_covariance ext (refinement_solver_options options)
           (refinement_problem ext options inlier_mask points2D camera_idxs cameras)
           (refinement_memory points3D cams_from_rig rig_from_world cameras rig_from_world_cov)
         = (ok, m')"
  using assms unfolding RefineGeneralizedAbsolutePose_def
  by (simp split: if_splits sum.splits)

lemma NumResiduals_refinement_problem:
  "0 < NumResiduals (refinement_problem ext options inlier_mask points2D camera_idxs cameras)
   \<longleftrightarrow> (\<exists>k<length points2D. inlier_mask ! k)"
  using fold_add_observation_residuals [of options inlier_mask points2D camera_idxs cameras
      "[0..<length points2D]" "(replicate (length cameras) 0, empty_Problem)"]
  by (auto simp: NumResiduals_def refinement_problem_residuals add_observations_def
      empty_Problem_def)

lemma example_refinement_returns:
  "\<exists>ok m'. RefineGeneralizedAbsolutePose example_refinement_collaborators
     example_refinement_options [True] [example_pixel] [chain_p0] [0]
     [Rigid3d_identity, Rigid3d_identity] Rigid3d_identity [example_camera, example_camera]
     cov = Inr (ok, m')"
  by (simp add: RefineGeneralizedAbsolutePose_def deref_min_element_def deref_max_element_def
      example_refinement_collaborators_def)

subsection \<open>C7: the verdict of the refinement\<close>

text \<open>
  Claim C7. A call of \<^verbatim>\<open>RefineGeneralizedAbsolutePose\<close> that returns reports success exactly
  when the solution of the solver is usable and, if a location for the covariance was
  passed and the problem has a residual, the covariance could be computed. A failed
  covariance makes the call fail whatever the solver reports.
\<close>

theorem RefineGeneralizedAbsolutePose_verdict:
  assumes "RefineGeneralizedAbsolutePose ext options inlier_mask points2D points3D camera_idxs
             cams_from_rig rig_from_world cameras rig_from_world_cov = Inr (ok, m')"
  shows "case ceres_Solve ext (refinement_solver_options options)
                (refinement_problem ext options inlier_mask points2D camera_idxs cameras)
                (refinement_memory points3D cams_from_rig rig_from_world cameras
                   rig_from_world_cov) of
           (m1, summary) \<Rightarrow>
             ok \<longleftrightarrow>
               IsSolutionUsable summary \<and>
               (rig_from_world_cov \<noteq> None \<and>
                0 < NumResiduals
                      (refinement_problem ext options inlier_mask points2D camera_idxs cameras)
                \<longrightarrow> Covariance_Compute ext [RigFromWorldRotation, RigFromWorldTranslation]
                      (refinement_problem ext options inlier_mask points2D camera_idxs cameras) m1)"
  using RefineGeneralizedAbsolutePose_returns [OF assms]
  by (auto simp: solve_and_covariance_def Let_def refinement_memory_def
      split: prod.splits if_splits)

theorem RefineGeneralizedAbsolutePose_verdict_witness:
  "\<exists>m'. RefineGeneralizedAbsolutePose example_refinement_collaborators
     example_refinement_options [True] [example_pixel] [chain_p0] [0]
     [Rigid3d_identity, Rigid3d_identity] Rigid3d_identity [example_camera, example_camera]
     (Some []) = Inr (False, m')"
proof -
  obtain ok m' where r: "RefineGeneralizedAbsolutePose example_refinement_collaborators
     example_refinement_options [True] [example_pixel] [chain_p0] [0]
     [Rigid3d_identity, Rigid3d_identity] Rigid3d_identity [example_camera, example_camera]
     (Some []) = Inr (ok, m')"
    using example_refinement_returns by blast
  have "\<not> ok"
    using RefineGeneralizedAbsolutePose_verdict [OF r]
    by (simp add: NumResiduals_refinement_problem ceres_Solve_def
        example_refinement_collaborators_def split: prod.splits)
  then show ?thesis using r by auto
qed

subsection \<open>C8: which intrinsics stay\<close>

text \<open>
  Claim C8. After a call that returns there are as many cameras with as many parameters
  each as before. With neither \<open>refine_focal_length\<close> nor \<open>refine_extra_params\<close> the
  parameters of every camera are the ones before the call. In every case the entries at
  the principal point indices are the ones before the call, and so are the entries at the
  focal length indices without \<open>refine_focal_length\<close> and the entries at the extra
  parameter indices without \<open>refine_extra_params\<close>.
\<close>

theorem RefineGeneralizedAbsolutePose_intrinsics:
  assumes "RefineGeneralizedAbsolutePose ext options inlier_mask points2D points3D camera_idxs
             cams_from_rig rig_from_world cameras rig_from_world_cov = Inr (ok, m')"
  shows "length (m_cameras m') = length cameras \<and>
         (\<forall>i<length cameras.
            length (params (m_cameras m' ! i)) = length (params (cameras ! i)) \<and>
            (\<not> refine_focal_length options \<and> \<not> refine_extra_params options \<longrightarrow>
               params (m_cameras m' ! i) = params (cameras ! i)) \<and>
            (\<forall>j<length (params (cameras ! i)).
               j \<in> set (PrincipalPointIdxs ext (cameras ! i)) \<or>
               (\<not> refine_focal_length options \<and> j \<in> set (FocalLengthIdxs ext (cameras ! i))) \<or>
               (\<not> refine_extra_params options \<and> j \<in> set (ExtraParamsIdxs ext (cameras ! i)))
               \<longrightarrow> params (m_cameras m' ! i) ! j = params (cameras ! i) ! j))"
proof -
  define problem where
    "problem = refinement_problem ext options inlier_mask points2D camera_idxs cameras"
  define m where
    "m = refinement_memory points3D cams_from_rig rig_from_world cameras rig_from_world_cov"
  define so where "so = refinement_solver_options options"
  define m1 where "m1 = fst (ceres_Solve ext so problem m)"
  have cams: "m_cameras m = cameras" by (simp add: m_def refinement_memory_def)
  have after: "m_cameras m' = m_cameras m1"
    using solve_and_covariance_memory(1) [OF RefineGeneralizedAbsolutePose_returns [OF assms]]
    by (simp add: m1_def so_def problem_def m_def)
  have len: "length (m_cameras m1) = length cameras"
    by (simp add: m1_def ceres_Solve_cameras_length cams)
  have coord: "params (m_cameras m1 ! i) ! j = params (cameras ! i) ! j"
    if "i < length cameras" "j < length (params (cameras ! i))"
      "constant_requested ext options (cameras ! i) j" for i j
  proof (cases "CameraParams i \<in> residual_parameter_blocks problem")
    case True
    have "fixed_coordinate problem (CameraParams i) j"
      using True that unfolding problem_def by (intro refinement_problem_fixes)
    then show ?thesis
      using that ceres_Solve_camera(4) [of i m problem j ext so] by (simp add: m1_def cams)
  next
    case False
    then show ?thesis
      using that ceres_Solve_camera_untouched [of i m problem ext so] by (simp add: m1_def cams)
  qed
  have plen: "length (params (m_cameras m1 ! i)) = length (params (cameras ! i))"
    if "i < length cameras" for i
    using that ceres_Solve_camera(2) [of i m ext so problem] by (simp add: m1_def cams)
  have whole: "params (m_cameras m1 ! i) = params (cameras ! i)"
    if "i < length cameras" "\<not> refine_focal_length options" "\<not> refine_extra_params options" for i
  proof (rule nth_equalityI)
    show "length (params (m_cameras m1 ! i)) = length (params (cameras ! i))"
      using that(1) by (rule plen)
    fix j assume "j < length (params (m_cameras m1 ! i))"
    then have "j < length (params (cameras ! i))" using plen [OF that(1)] by simp
    then show "params (m_cameras m1 ! i) ! j = params (cameras ! i) ! j"
      using that by (intro coord) (simp_all add: constant_requested_def)
  qed
  show ?thesis
    unfolding after using len plen whole coord
    by (auto simp: constant_requested_def)
qed

theorem RefineGeneralizedAbsolutePose_intrinsics_witness:
  "\<exists>ok m'. RefineGeneralizedAbsolutePose example_refinement_collaborators
     example_refinement_options [True] [example_pixel] [chain_p0] [0]
     [Rigid3d_identity, Rigid3d_identity] Rigid3d_identity [example_camera, example_camera]
     None = Inr (ok, m') \<and>
     params (m_cameras m' ! 0) ! 1 = params example_camera ! 1 \<and>
     params (m_cameras m' ! 0) ! 2 = params example_camera ! 2"
proof -
  obtain ok m' where r: "RefineGeneralizedAbsolutePose example_refinement_collaborators
     example_refinement_options [True] [example_pixel] [chain_p0] [0]
     [Rigid3d_identity, Rigid3d_identity] Rigid3d_identity [example_camera, example_camera]
     None = Inr (ok, m')"
    using example_refinement_returns by blast
  have "params (m_cameras m' ! 0) ! 1 = params example_camera ! 1 \<and>
        params (m_cameras m' ! 0) ! 2 = params example_camera ! 2"
    using RefineGeneralizedAbsolutePose_intrinsics [OF r, THEN conjunct2, rule_format, of 0,
        THEN conjunct2, THEN conjunct2, rule_format, of 1]
      RefineGeneralizedAbsolutePose_intrinsics [OF r, THEN conjunct2, rule_format, of 0,
        THEN conjunct2, THEN conjunct2, rule_format, of 2]
    by (simp add: example_refinement_collaborators_def example_camera_def)
  then show ?thesis using r by auto
qed

subsection \<open>C9: what the refinement leaves alone\<close>

text \<open>
  Claim C9. After a call that returns, the caller's \<open>cams_from_rig\<close> and \<open>points3D\<close> are
  what they were: the solver is given addresses into the two local copies only. The
  parameters of a camera that no inlier correspondence names are not a block of the
  problem, and the camera is what it was.
\<close>

theorem RefineGeneralizedAbsolutePose_frame:
  assumes "RefineGeneralizedAbsolutePose ext options inlier_mask points2D points3D camera_idxs
             cams_from_rig rig_from_world cameras rig_from_world_cov = Inr (ok, m')"
  shows "m_cams_from_rig m' = cams_from_rig \<and> m_points3D m' = points3D \<and>
         (\<forall>i<length cameras.
            (\<forall>k<length points2D. inlier_mask ! k \<longrightarrow> camera_idxs ! k \<noteq> i) \<longrightarrow>
            CameraParams i \<notin> set (problem_blocks
              (refinement_problem ext options inlier_mask points2D camera_idxs cameras)) \<and>
            m_cameras m' ! i = cameras ! i)"
proof -
  define problem where
    "problem = refinement_problem ext options inlier_mask points2D camera_idxs cameras"
  define m where
    "m = refinement_memory points3D cams_from_rig rig_from_world cameras rig_from_world_cov"
  define so where "so = refinement_solver_options options"
  note ret = RefineGeneralizedAbsolutePose_returns [OF assms, folded problem_def m_def so_def]
  have nc: "\<forall>b\<in>residual_parameter_blocks problem. \<not> caller_block b"
    unfolding problem_def
    by (blast dest: refinement_problem_blocks observation_block_not_caller)
  have "m_cams_from_rig m' = m_cams_from_rig m" and "m_points3D m' = m_points3D m"
    using solve_and_covariance_memory(2,3) [OF ret] ceres_Solve_caller [OF nc] by simp_all
  then have caller: "m_cams_from_rig m' = cams_from_rig" "m_points3D m' = points3D"
    by (simp_all add: m_def refinement_memory_def)
  have untouched: "CameraParams i \<notin> set (problem_blocks problem) \<and> m_cameras m' ! i = cameras ! i"
    if "i < length cameras" "\<forall>k<length points2D. inlier_mask ! k \<longrightarrow> camera_idxs ! k \<noteq> i" for i
  proof -
    have out: "CameraParams i \<notin> residual_parameter_blocks problem"
      unfolding problem_def using that(2) by (rule refinement_problem_no_inlier)
    have "m_cameras m' ! i = m_cameras m ! i"
      using solve_and_covariance_memory(1) [OF ret] that(1)
        ceres_Solve_camera_untouched [of i m problem ext so] out
      by (simp add: m_def refinement_memory_def)
    then show ?thesis using out by (simp add: set_problem_blocks m_def refinement_memory_def)
  qed
  show ?thesis using caller untouched unfolding problem_def by blast
qed


theorem RefineGeneralizedAbsolutePose_frame_witness:
  "\<exists>ok m'. RefineGeneralizedAbsolutePose example_refinement_collaborators
     example_refinement_options [True] [example_pixel] [chain_p0] [0]
     [Rigid3d_identity, Rigid3d_identity] Rigid3d_identity [example_camera, example_camera]
     None = Inr (ok, m') \<and>
     m_cams_from_rig m' = [Rigid3d_identity, Rigid3d_identity] \<and> m_points3D m' = [chain_p0] \<and>
     m_cameras m' ! 1 = example_camera"
proof -
  obtain ok m' where r: "RefineGeneralizedAbsolutePose example_refinement_collaborators
     example_refinement_options [True] [example_pixel] [chain_p0] [0]
     [Rigid3d_identity, Rigid3d_identity] Rigid3d_identity [example_camera, example_camera]
     None = Inr (ok, m')"
    using example_refinement_returns by blast
  have "m_cams_from_rig m' = [Rigid3d_identity, Rigid3d_identity] \<and> m_points3D m' = [chain_p0] \<and>
     m_cameras m' ! 1 = example_camera"
    using RefineGeneralizedAbsolutePose_frame [OF r]
      RefineGeneralizedAbsolutePose_frame [OF r, THEN conjunct2, THEN conjunct2, rule_format, of 1]
    by simp
  then show ?thesis using r by auto
qed

end
